theory Spec2Isabelle
  imports Main "HOL-Library.Word" "HOL-Library.AList"
begin

unbundle bit_operations_syntax

section \<open>Icestorm: the Iceberg VM of icestorm.go\<close>

text \<open>
  A shallow embedding of \<^verbatim>\<open>src/iceberg-go/icestorm.go\<close>.  Go strings and byte slices are
  \<^typ>\<open>string\<close> (a list of 8-bit \<^typ>\<open>char\<close>), \<^verbatim>\<open>int64\<close> values are \<^typ>\<open>64 word\<close>, a
  \<^verbatim>\<open>float64\<close> is its IEEE-754 bit pattern (what \<^verbatim>\<open>binary.Write\<close> stores), kind tags and the
  program counter are \<^typ>\<open>int\<close> (no arithmetic on them can overflow).  \<^verbatim>\<open>os.Exit\<close> after a
  diagnostic and a Go run-time panic are error values; a computation that does not return
  is \<open>None\<close>.
\<close>

subsection \<open>Kinds, entities, errors\<close>

type_synonym int64 = "64 word"
type_synonym float64 = "64 word"

definition T_UNDET :: int where "T_UNDET = 0"
definition T_INT :: int where "T_INT = 1"
definition T_FLOAT :: int where "T_FLOAT = 2"
definition T_BOOL :: int where "T_BOOL = 4"
definition T_STR :: int where "T_STR = 8"
definition T_LABEL :: int where "T_LABEL = 16"
definition T_ANY :: int where "T_ANY = 31"

record Entity =
  Data :: string
  E_type :: int

record instruction =
  Inst :: string
  Args :: "Entity list"

record Bytecode =
  inst_list :: "instruction list"
  bc_label_table :: "string \<rightharpoonup> int"

text \<open>
  The mutable part of \<^verbatim>\<open>IcebergVM\<close>.  \<open>var_table\<close> is an association list read with
  \<^const>\<open>map_of\<close> and written with \<^const>\<open>AList.update\<close>, so that \<^verbatim>\<open>dump\<close> can walk it.
  \<open>warnings\<close> records the calls of \<^verbatim>\<open>Runtime_warning\<close> (instruction number and message);
  the other prints are not modelled.  \<^verbatim>\<open>Inst_table\<close> holds handlers, which are functions on
  this record, and is therefore passed beside it.
\<close>

record IcebergVM =
  exec_pos :: int
  label_table :: "string \<rightharpoonup> int"
  var_table :: "(string \<times> Entity) list"
  warnings :: "(int \<times> string) list"

datatype error =
  CompileError int string  \<comment> \<open>\<^verbatim>\<open>compile_error\<close>: 1-based line, message; the process exits\<close>
| RuntimeError int string  \<comment> \<open>\<^verbatim>\<open>Runtime_error\<close>: instruction number, message; the process exits\<close>
| GoPanic string           \<comment> \<open>a panic of the Go run time\<close>

definition compile_error :: "IcebergVM \<Rightarrow> string \<Rightarrow> error" where
  "compile_error vm message = CompileError (exec_pos vm + 1) message"

definition Runtime_error :: "IcebergVM \<Rightarrow> string \<Rightarrow> error" where
  "Runtime_error vm message = RuntimeError (exec_pos vm) message"

definition Runtime_warning :: "IcebergVM \<Rightarrow> string \<Rightarrow> IcebergVM" where
  "Runtime_warning vm message = vm\<lparr>warnings := warnings vm @ [(exec_pos vm, message)]\<rparr>"

text \<open>
  The dynamic values behind Go's \<^verbatim>\<open>interface{}\<close>: an \<^verbatim>\<open>int64\<close>, a \<^verbatim>\<open>float64\<close>, a \<^verbatim>\<open>bool\<close>, a
  \<^verbatim>\<open>string\<close>; \<open>VNil\<close>, the nil interface; \<open>VNamed\<close>, a value of a named type whose
  \<^verbatim>\<open>reflect\<close> kind is one of these four without being the type itself (such as
  \<^verbatim>\<open>time.Duration\<close>); \<open>VOther\<close>, a value of any other kind.
\<close>

datatype hostval =
  VInt int64 | VFloat float64 | VBool bool | VStr string | VNil | VNamed | VOther

subsection \<open>Little-endian payloads (\<^verbatim>\<open>encoding/binary\<close>)\<close>

fun le_put :: "nat \<Rightarrow> nat \<Rightarrow> string" where
  "le_put 0 n = []"
| "le_put (Suc k) n = char_of (n mod 256) # le_put k (n div 256)"

fun le_get :: "string \<Rightarrow> nat" where
  "le_get [] = 0"
| "le_get (c # cs) = of_char c + 256 * le_get cs"

definition put_uint64 :: "64 word \<Rightarrow> string" where
  "put_uint64 w = le_put 8 (unat w)"

definition put_bool :: "bool \<Rightarrow> string" where
  "put_bool b = [char_of (if b then 1 else 0 :: nat)]"

text \<open>
  \<^verbatim>\<open>binary.Read\<close> of a fixed-size value: \<^verbatim>\<open>io.EOF\<close> when the reader is empty,
  \<^verbatim>\<open>io.ErrUnexpectedEOF\<close> when it holds fewer bytes than the value needs; extra bytes stay
  unread.  The result is the error's text or the bytes read.
\<close>

definition read_full :: "nat \<Rightarrow> string \<Rightarrow> string + string" where
  "read_full n bs =
     (if n \<le> length bs then Inr (take n bs)
      else if bs = [] then Inl ''EOF'' else Inl ''unexpected EOF'')"

subsection \<open>Integer text (\<^verbatim>\<open>strconv.FormatInt\<close>, \<^verbatim>\<open>strconv.ParseInt\<close>, base 10)\<close>

definition digit_char :: "nat \<Rightarrow> char" where
  "digit_char d = char_of (48 + d)"

function digits10 :: "nat \<Rightarrow> string" where
  "digits10 n = (if n < 10 then [digit_char n] else digits10 (n div 10) @ [digit_char (n mod 10)])"
  by pat_completeness auto
termination
  by (relation "measure id") auto

definition format_int :: "int \<Rightarrow> string" where
  "format_int i = (if i < 0 then CHR ''-'' # digits10 (nat (- i)) else digits10 (nat i))"

definition FormatInt :: "int64 \<Rightarrow> string" where
  "FormatInt i = format_int (sint i)"

definition is_digit :: "char \<Rightarrow> bool" where
  "is_digit c = (48 \<le> (of_char c :: nat) \<and> (of_char c :: nat) \<le> 57)"

fun parse_digits :: "nat \<Rightarrow> string \<Rightarrow> nat option" where
  "parse_digits acc [] = Some acc"
| "parse_digits acc (c # cs) =
     (if is_digit c then parse_digits (acc * 10 + (of_char c - 48)) cs else None)"

text \<open>
  \<^verbatim>\<open>strconv.ParseInt(s, 10, 64)\<close>: an optional sign, then one or more decimal digits, the
  value within the range of \<^verbatim>\<open>int64\<close>; \<open>None\<close> stands for any error.
\<close>

definition ParseInt :: "string \<Rightarrow> int64 option" where
  "ParseInt s =
     (case s of
        [] \<Rightarrow> None
      | c # r \<Rightarrow>
          (let neg = (c = CHR ''-'');
               body = (if c = CHR ''+'' \<or> c = CHR ''-'' then r else s)
           in if body = [] then None
              else (case parse_digits 0 body of
                      None \<Rightarrow> None
                    | Some un \<Rightarrow>
                        if \<not> neg \<and> 2 ^ 63 \<le> un then None
                        else if neg \<and> 2 ^ 63 < un then None
                        else Some (if neg then word_of_int (- int un) else word_of_nat un))))"

subsection \<open>\<^verbatim>\<open>float64\<close> as a bit pattern\<close>

text \<open>
  Sign in bit 63, biased exponent in bits 52 to 62, fraction in bits 0 to 51.  The
  comparisons with zero, the orderings and the conversions from and to \<^verbatim>\<open>int64\<close> are
  written out.  \<^verbatim>\<open>int64(f)\<close> truncates toward zero; for a NaN or a magnitude of 2^63 or more
  Go leaves the result to the implementation, and the value here is the one of amd64.
\<close>

definition f64_exp :: "float64 \<Rightarrow> nat" where
  "f64_exp x = (unat x div 2 ^ 52) mod 2048"

definition f64_frac :: "float64 \<Rightarrow> nat" where
  "f64_frac x = unat x mod 2 ^ 52"

definition f64_neg :: "float64 \<Rightarrow> bool" where
  "f64_neg x = (2 ^ 63 \<le> unat x)"

definition f64_is_nan :: "float64 \<Rightarrow> bool" where
  "f64_is_nan x = (f64_exp x = 2047 \<and> f64_frac x \<noteq> 0)"

definition f64_is_zero :: "float64 \<Rightarrow> bool" where
  "f64_is_zero x = (unat x mod 2 ^ 63 = 0)"

definition f64_key :: "float64 \<Rightarrow> int" where
  "f64_key x = (if f64_neg x then - int (unat x mod 2 ^ 63) else int (unat x mod 2 ^ 63))"

definition f64_eq :: "float64 \<Rightarrow> float64 \<Rightarrow> bool" where
  "f64_eq a b = (\<not> f64_is_nan a \<and> \<not> f64_is_nan b \<and> f64_key a = f64_key b)"

definition f64_lt :: "float64 \<Rightarrow> float64 \<Rightarrow> bool" where
  "f64_lt a b = (\<not> f64_is_nan a \<and> \<not> f64_is_nan b \<and> f64_key a < f64_key b)"

definition f64_le :: "float64 \<Rightarrow> float64 \<Rightarrow> bool" where
  "f64_le a b = (\<not> f64_is_nan a \<and> \<not> f64_is_nan b \<and> f64_key a \<le> f64_key b)"

function bit_length :: "nat \<Rightarrow> nat" where
  "bit_length n = (if n = 0 then 0 else Suc (bit_length (n div 2)))"
  by pat_completeness auto
termination
  by (relation "measure id") auto

definition f64_pack :: "bool \<Rightarrow> nat \<Rightarrow> nat \<Rightarrow> float64" where
  "f64_pack neg e frac = word_of_nat ((if neg then 2 ^ 63 else 0) + e * 2 ^ 52 + frac)"

text \<open>\<^verbatim>\<open>float64(i)\<close>: the nearest \<^verbatim>\<open>float64\<close>, ties to the even significand.\<close>

definition float64_of_int64 :: "int64 \<Rightarrow> float64" where
  "float64_of_int64 i =
     (let v = sint i; neg = (v < 0); n = nat \<bar>v\<bar>; len = bit_length n
      in if n = 0 then 0
         else if len \<le> 53 then f64_pack neg (len + 1022) (n * 2 ^ (53 - len) - 2 ^ 52)
         else
           (let sh = len - 53; q = n div 2 ^ sh; r = n mod 2 ^ sh; half = 2 ^ (sh - 1);
                m = (if half < r \<or> (r = half \<and> odd q) then q + 1 else q)
            in if m = 2 ^ 53 then f64_pack neg (len + 1023) 0
               else f64_pack neg (len + 1022) (m - 2 ^ 52)))"

definition MinInt64 :: int64 where
  "MinInt64 = 0x8000000000000000"

definition int64_of_float64 :: "float64 \<Rightarrow> int64" where
  "int64_of_float64 x =
     (let e = f64_exp x; m = 2 ^ 52 + f64_frac x
      in if e < 1023 then 0
         else if 1086 \<le> e then MinInt64
         else
           (let mag = (if 1075 \<le> e then m * 2 ^ (e - 1075) else m div 2 ^ (1075 - e))
            in if f64_neg x then word_of_int (- int mag) else word_of_nat mag))"

text \<open>
  The rest of Go's floating point is not part of this repository and is a parameter of the
  model: \<^verbatim>\<open>strconv.ParseFloat(s, 64)\<close> (\<open>None\<close> for an error),
  \<^verbatim>\<open>strconv.FormatFloat(f, 'f', -1, 64)\<close>, the four arithmetic operators, \<^verbatim>\<open>math.Floor\<close> and
  \<^verbatim>\<open>math.Pow\<close>.  Every theorem below holds for each choice of them.
\<close>

record go_runtime =
  ParseFloat :: "string \<Rightarrow> float64 option"
  FormatFloat :: "float64 \<Rightarrow> string"
  f_add :: "float64 \<Rightarrow> float64 \<Rightarrow> float64"
  f_sub :: "float64 \<Rightarrow> float64 \<Rightarrow> float64"
  f_mul :: "float64 \<Rightarrow> float64 \<Rightarrow> float64"
  f_quo :: "float64 \<Rightarrow> float64 \<Rightarrow> float64"
  Floor :: "float64 \<Rightarrow> float64"
  Pow :: "float64 \<Rightarrow> float64 \<Rightarrow> float64"

subsection \<open>Strings\<close>

text \<open>
  \<^verbatim>\<open>strings.IndexRune(s, r)\<close> for an ASCII rune \<open>r\<close> (every call site passes one): the index
  of the first byte equal to it, or \<open>-1\<close>.
\<close>

fun IndexRune :: "string \<Rightarrow> char \<Rightarrow> int" where
  "IndexRune [] r = - 1"
| "IndexRune (x # xs) r =
     (if x = r then 0 else (let k = IndexRune xs r in if k < 0 then - 1 else k + 1))"

text \<open>
  \<^verbatim>\<open>for _, c := range line\<close> walks the code points of the UTF-8 decoding of \<open>line\<close>; a byte
  that starts no valid encoding yields U+FFFD and the walk advances by one byte.
\<close>

definition is_cont :: "nat \<Rightarrow> bool" where
  "is_cont b = (128 \<le> b \<and> b < 192)"

fun decode_runes :: "nat list \<Rightarrow> nat list" where
  "decode_runes [] = []"
| "decode_runes (b0 # bs) =
     (if b0 < 128 then b0 # decode_runes bs
      else if 194 \<le> b0 \<and> b0 < 224 then
        (case bs of
           b1 # r \<Rightarrow>
             if is_cont b1 then ((b0 - 192) * 64 + (b1 - 128)) # decode_runes r
             else 65533 # decode_runes bs
         | _ \<Rightarrow> 65533 # decode_runes bs)
      else if 224 \<le> b0 \<and> b0 < 240 then
        (case bs of
           b1 # b2 # r \<Rightarrow>
             if (if b0 = 224 then 160 else 128) \<le> b1 \<and> b1 < (if b0 = 237 then 160 else 192)
                \<and> is_cont b2
             then ((b0 - 224) * 4096 + (b1 - 128) * 64 + (b2 - 128)) # decode_runes r
             else 65533 # decode_runes bs
         | _ \<Rightarrow> 65533 # decode_runes bs)
      else if 240 \<le> b0 \<and> b0 < 245 then
        (case bs of
           b1 # b2 # b3 # r \<Rightarrow>
             if (if b0 = 240 then 144 else 128) \<le> b1 \<and> b1 < (if b0 = 244 then 144 else 192)
                \<and> is_cont b2 \<and> is_cont b3
             then ((b0 - 240) * 262144 + (b1 - 128) * 4096 + (b2 - 128) * 64 + (b3 - 128))
                  # decode_runes r
             else 65533 # decode_runes bs
         | _ \<Rightarrow> 65533 # decode_runes bs)
      else 65533 # decode_runes bs)"

definition range_runes :: "string \<Rightarrow> nat list" where
  "range_runes line = decode_runes (map of_char line)"

text \<open>\<^verbatim>\<open>strings.Split(script, "\n")\<close>.\<close>

fun Split_newline :: "string \<Rightarrow> string list" where
  "Split_newline [] = [[]]"
| "Split_newline (c # cs) =
     (if c = CHR 0x0A then [] # Split_newline cs
      else (case Split_newline cs of l # ls \<Rightarrow> (c # l) # ls | [] \<Rightarrow> [[c]]))"

subsection \<open>The operand classifier\<close>

text \<open>
  \<^verbatim>\<open>conv_arg\<close>.  \<^verbatim>\<open>binary.Write\<close> into a \<^verbatim>\<open>bytes.Buffer\<close> cannot fail for the types written
  here, so the \<^verbatim>\<open>compile_error\<close> branches after it are left out.  The slice
  \<^verbatim>\<open>b_arg_str[1:len(b_arg_str)-1]\<close> of a one-byte token panics.
\<close>

definition conv_arg :: "go_runtime \<Rightarrow> string \<Rightarrow> error + Entity" where
  "conv_arg rt bs_arg =
     (let arg_str = bs_arg
      in if IndexRune arg_str (CHR ''@'') = 0 then Inr \<lparr>Data = arg_str, E_type = T_LABEL\<rparr>
         else if IndexRune arg_str (CHR 0x22) = 0 \<or> IndexRune arg_str (CHR 0x27) = 0 then
           (if length arg_str < 2 then Inl (GoPanic ''runtime error: slice bounds out of range [1:0]'')
            else Inr \<lparr>Data = butlast (tl arg_str), E_type = T_STR\<rparr>)
         else if arg_str = ''true'' \<or> arg_str = ''false'' then
           Inr \<lparr>Data = put_bool (arg_str = ''true''), E_type = T_BOOL\<rparr>
         else
           (case ParseInt arg_str of
              Some int_arg \<Rightarrow> Inr \<lparr>Data = put_uint64 int_arg, E_type = T_INT\<rparr>
            | None \<Rightarrow>
                (case ParseFloat rt arg_str of
                   Some float_arg \<Rightarrow> Inr \<lparr>Data = put_uint64 float_arg, E_type = T_FLOAT\<rparr>
                 | None \<Rightarrow> Inr \<lparr>Data = arg_str, E_type = T_UNDET\<rparr>)))"

subsection \<open>The line tokenizer\<close>

text \<open>
  The locals of \<^verbatim>\<open>parse_args\<close>.  \<open>pa_buf\<close> is the filled part \<^verbatim>\<open>buf[:buf_idx]\<close> of the
  buffer: the loop writes at most one byte per code point, so the buffer of \<^verbatim>\<open>len(line)\<close>
  bytes is never exceeded, and the bytes beyond \<^verbatim>\<open>buf_idx\<close> are never read.
\<close>

record parse_args_state =
  pa_args :: "Entity list"
  pa_buf :: string
  pa_d_quote :: bool
  pa_s_quote :: bool
  pa_after_parentheses :: bool

definition byte_of_rune :: "nat \<Rightarrow> char" where
  "byte_of_rune c = char_of c"

definition dq_rune :: nat where "dq_rune = 34"
definition sq_rune :: nat where "sq_rune = 39"
definition comma_rune :: nat where "comma_rune = 44"
definition space_rune :: nat where "space_rune = 32"

text \<open>One round of the loop \<^verbatim>\<open>for _, c := range line\<close>.\<close>

definition parse_args_step ::
  "go_runtime \<Rightarrow> IcebergVM \<Rightarrow> parse_args_state \<Rightarrow> nat \<Rightarrow> error + parse_args_state" where
  "parse_args_step rt vm st c =
     (if pa_d_quote st then
        (if c = dq_rune then
           (case conv_arg rt (pa_buf st @ [CHR 0x22]) of
              Inl e \<Rightarrow> Inl e
            | Inr a \<Rightarrow> Inr (st\<lparr>pa_args := pa_args st @ [a], pa_buf := [],
                              pa_d_quote := False, pa_after_parentheses := True\<rparr>))
         else Inr (st\<lparr>pa_buf := pa_buf st @ [byte_of_rune c]\<rparr>))
      else if pa_s_quote st then
        (if c = sq_rune then
           (case conv_arg rt (pa_buf st @ [CHR 0x27]) of
              Inl e \<Rightarrow> Inl e
            | Inr a \<Rightarrow> Inr (st\<lparr>pa_args := pa_args st @ [a], pa_buf := [],
                              pa_s_quote := False, pa_after_parentheses := True\<rparr>))
         else Inr (st\<lparr>pa_buf := pa_buf st @ [byte_of_rune c]\<rparr>))
      else if c = comma_rune then
        (if \<not> pa_after_parentheses st then
           (case conv_arg rt (pa_buf st) of
              Inl e \<Rightarrow> Inl e
            | Inr a \<Rightarrow> Inr (st\<lparr>pa_args := pa_args st @ [a], pa_buf := []\<rparr>))
         else Inr (st\<lparr>pa_after_parentheses := False\<rparr>))
      else if c = dq_rune then
        (if pa_buf st \<noteq> [] then
           Inl (compile_error vm (''Syntax ERROR: Expected , before '' @ [CHR 0x22]))
         else Inr (st\<lparr>pa_buf := pa_buf st @ [CHR 0x22], pa_d_quote := True\<rparr>))
      else if c = sq_rune then
        (if pa_buf st \<noteq> [] then
           Inl (compile_error vm (''Syntax ERROR: Expected , before '' @ [CHR 0x27]))
         else Inr (st\<lparr>pa_buf := pa_buf st @ [CHR 0x27], pa_s_quote := True\<rparr>))
      else if c \<noteq> space_rune then
        (if \<not> pa_after_parentheses st then Inr (st\<lparr>pa_buf := pa_buf st @ [byte_of_rune c]\<rparr>)
         else Inr st)
      else Inr st)"

fun parse_args_loop ::
  "go_runtime \<Rightarrow> IcebergVM \<Rightarrow> parse_args_state \<Rightarrow> nat list \<Rightarrow> error + parse_args_state" where
  "parse_args_loop rt vm st [] = Inr st"
| "parse_args_loop rt vm st (c # cs) =
     (case parse_args_step rt vm st c of
        Inl e \<Rightarrow> Inl e
      | Inr st' \<Rightarrow> parse_args_loop rt vm st' cs)"

definition parse_args_init :: parse_args_state where
  "parse_args_init = \<lparr>pa_args = [], pa_buf = [], pa_d_quote = False, pa_s_quote = False,
                       pa_after_parentheses = False\<rparr>"

definition parse_args :: "go_runtime \<Rightarrow> IcebergVM \<Rightarrow> string \<Rightarrow> error + Entity list" where
  "parse_args rt vm line =
     (case parse_args_loop rt vm parse_args_init (range_runes line) of
        Inl e \<Rightarrow> Inl e
      | Inr st \<Rightarrow>
          (case (if pa_buf st \<noteq> [] then
                   (case conv_arg rt (pa_buf st) of
                      Inl e \<Rightarrow> Inl e
                    | Inr a \<Rightarrow> Inr (pa_args st @ [a]))
                 else Inr (pa_args st)) of
             Inl e \<Rightarrow> Inl e
           | Inr args \<Rightarrow>
               if pa_d_quote st then Inl (compile_error vm (''Syntax ERROR: Missing '' @ [CHR 0x22]))
               else if pa_s_quote st then
                 Inl (compile_error vm (''Syntax ERROR: Missing '' @ [CHR 0x27]))
               else Inr args))"

text \<open>A code point other than the four the tokenizer treats specially outside quotes.\<close>

definition plain_rune :: "nat \<Rightarrow> bool" where
  "plain_rune c = (c \<noteq> comma_rune \<and> c \<noteq> dq_rune \<and> c \<noteq> sq_rune \<and> c \<noteq> space_rune)"

subsection \<open>The program assembler\<close>

type_synonym handler = "Entity list \<Rightarrow> IcebergVM \<Rightarrow> (error + IcebergVM) option"

record InstructionDesc =
  Function :: handler
  N_args :: int

type_synonym inst_table = "string \<rightharpoonup> InstructionDesc"

definition chk_nargs :: "IcebergVM \<Rightarrow> Entity list \<Rightarrow> int \<Rightarrow> error + unit" where
  "chk_nargs vm args expected_nargs =
     (let n_elements = int (length args)
      in if expected_nargs < n_elements then
           Inl (compile_error vm (''Syntax ERROR: Too many arguments('' @ format_int expected_nargs
                  @ '' expected but '' @ format_int n_elements @ '' given)''))
         else if n_elements < expected_nargs then
           Inl (compile_error vm (''Syntax ERROR: Too few arguments('' @ format_int expected_nargs
                  @ '' expected but '' @ format_int n_elements @ '' given)''))
         else Inr ())"

text \<open>
  \<^verbatim>\<open>strings.SplitN(line, " ", 2)\<close> on a line that holds a space: the text before the first
  space and the text after it.
\<close>

definition parse_oneline ::
  "go_runtime \<Rightarrow> inst_table \<Rightarrow> IcebergVM \<Rightarrow> string \<Rightarrow> instruction list \<Rightarrow> error + instruction list"
  where
  "parse_oneline rt Inst_table vm line program =
     (if IndexRune line (CHR '' '') = - 1 then
        (let instr = line
         in case Inst_table instr of
              Some d \<Rightarrow>
                (case chk_nargs vm [] (N_args d) of
                   Inl e \<Rightarrow> Inl e
                 | Inr _ \<Rightarrow> Inr (program @ [\<lparr>Inst = instr, Args = []\<rparr>]))
            | None \<Rightarrow>
                if IndexRune line (CHR ''@'') = 0 then Inr (program @ [\<lparr>Inst = instr, Args = []\<rparr>])
                else if line \<noteq> [] then
                  Inl (compile_error vm (''Syntax ERROR: Unknown instruction '' @ instr))
                else Inr program)
      else
        (let instr = takeWhile (\<lambda>c. c \<noteq> CHR '' '') line;
             rest = tl (dropWhile (\<lambda>c. c \<noteq> CHR '' '') line)
         in case Inst_table instr of
              Some d \<Rightarrow>
                (case parse_args rt vm rest of
                   Inl e \<Rightarrow> Inl e
                 | Inr args \<Rightarrow>
                     (case chk_nargs vm args (N_args d) of
                        Inl e \<Rightarrow> Inl e
                      | Inr _ \<Rightarrow> Inr (program @ [\<lparr>Inst = instr, Args = args\<rparr>])))
            | None \<Rightarrow>
                if IndexRune instr (CHR ''@'') = 0 then
                  Inl (compile_error vm ''Syntax ERROR: Expected newline after label definition'')
                else Inl (compile_error vm (''Syntax ERROR: Unknown instruction '' @ instr))))"

text \<open>
  \<^verbatim>\<open>set_labels\<close>: the loop over \<^verbatim>\<open>program\<close> with its index, writing the copy
  \<^verbatim>\<open>new_program\<close> and the fresh \<^verbatim>\<open>label_table\<close>.
\<close>

fun set_labels_loop ::
  "nat \<Rightarrow> instruction list \<Rightarrow> instruction list \<Rightarrow> (string \<rightharpoonup> int)
     \<Rightarrow> instruction list \<times> (string \<rightharpoonup> int)" where
  "set_labels_loop i [] new_program labels = (new_program, labels)"
| "set_labels_loop i (instr # rest) new_program labels =
     (if IndexRune (Inst instr) (CHR ''@'') = 0 then
        set_labels_loop (Suc i) rest
          (new_program[i := (new_program ! i)\<lparr>Inst := ''nop''\<rparr>])
          (labels(Inst instr \<mapsto> int i))
      else set_labels_loop (Suc i) rest new_program labels)"

definition set_labels :: "instruction list \<Rightarrow> instruction list \<times> (string \<rightharpoonup> int)" where
  "set_labels program = set_labels_loop 0 program program Map.empty"

definition is_left_space :: "char \<Rightarrow> bool" where
  "is_left_space c = (c = CHR 0x0A \<or> c = CHR 0x09 \<or> c = CHR '' '')"

text \<open>The loop of \<^verbatim>\<open>parse_script\<close>; it leaves the line index in \<^verbatim>\<open>vm.exec_pos\<close>.\<close>

fun parse_lines ::
  "go_runtime \<Rightarrow> inst_table \<Rightarrow> IcebergVM \<Rightarrow> int \<Rightarrow> string list \<Rightarrow> instruction list
     \<Rightarrow> error + instruction list \<times> IcebergVM" where
  "parse_lines rt Inst_table vm i [] program = Inr (program, vm)"
| "parse_lines rt Inst_table vm i (l # ls) program =
     (let vm' = vm\<lparr>exec_pos := i\<rparr>;
          line = dropWhile is_left_space l
      in case parse_oneline rt Inst_table vm' line program of
           Inl e \<Rightarrow> Inl e
         | Inr program' \<Rightarrow> parse_lines rt Inst_table vm' (i + 1) ls program')"

definition parse_script ::
  "go_runtime \<Rightarrow> inst_table \<Rightarrow> IcebergVM \<Rightarrow> string
     \<Rightarrow> error + (instruction list \<times> (string \<rightharpoonup> int)) \<times> IcebergVM" where
  "parse_script rt Inst_table vm script =
     (case parse_lines rt Inst_table vm 0 (Split_newline script) [] of
        Inl e \<Rightarrow> Inl e
      | Inr (program, vm') \<Rightarrow> Inr (set_labels program, vm'))"

definition Gen_bytecode ::
  "go_runtime \<Rightarrow> inst_table \<Rightarrow> IcebergVM \<Rightarrow> string \<Rightarrow> error + Bytecode \<times> IcebergVM" where
  "Gen_bytecode rt Inst_table vm script =
     (case parse_script rt Inst_table vm script of
        Inl e \<Rightarrow> Inl e
      | Inr ((program, labels), vm') \<Rightarrow>
          Inr (\<lparr>inst_list = program, bc_label_table = labels\<rparr>, vm'))"

subsection \<open>Results of handlers\<close>

text \<open>
  A handler returns \<open>Some (Inr vm')\<close>, stops the process with \<open>Some (Inl e)\<close>, or does not
  return (\<open>None\<close>).
\<close>

definition ret :: "'a \<Rightarrow> (error + 'a) option" where
  "ret x = Some (Inr x)"

definition abort :: "error \<Rightarrow> (error + 'a) option" where
  "abort e = Some (Inl e)"

definition and_then :: "(error + 'a) option \<Rightarrow> ('a \<Rightarrow> (error + 'b) option) \<Rightarrow> (error + 'b) option"
  where
  "and_then m f = (case m of None \<Rightarrow> None | Some (Inl e) \<Rightarrow> Some (Inl e) | Some (Inr x) \<Rightarrow> f x)"

text \<open>\<^verbatim>\<open>args[k]\<close>, and the type assertions \<^verbatim>\<open>v.(int64)\<close>, \<^verbatim>\<open>v.(float64)\<close>, \<^verbatim>\<open>v.(bool)\<close>, \<^verbatim>\<open>v.(string)\<close>.\<close>

definition arg_at :: "Entity list \<Rightarrow> nat \<Rightarrow> (error + Entity) option" where
  "arg_at args k =
     (if k < length args then ret (args ! k) else abort (GoPanic ''runtime error: index out of range''))"

definition as_int64 :: "hostval \<Rightarrow> (error + int64) option" where
  "as_int64 v = (case v of VInt i \<Rightarrow> ret i | _ \<Rightarrow> abort (GoPanic ''interface conversion''))"

definition as_float64 :: "hostval \<Rightarrow> (error + float64) option" where
  "as_float64 v = (case v of VFloat f \<Rightarrow> ret f | _ \<Rightarrow> abort (GoPanic ''interface conversion''))"

definition as_bool :: "hostval \<Rightarrow> (error + bool) option" where
  "as_bool v = (case v of VBool b \<Rightarrow> ret b | _ \<Rightarrow> abort (GoPanic ''interface conversion''))"

definition as_string :: "hostval \<Rightarrow> (error + string) option" where
  "as_string v = (case v of VStr s \<Rightarrow> ret s | _ \<Rightarrow> abort (GoPanic ''interface conversion''))"

subsection \<open>The argument resolver and the variable store\<close>

text \<open>\<^verbatim>\<open>Get_argument\<close> from the type-mask test on, for an entity that is not \<open>T_UNDET\<close>.\<close>

definition Get_argument_decode :: "IcebergVM \<Rightarrow> Entity \<Rightarrow> int \<Rightarrow> error + hostval \<times> int" where
  "Get_argument_decode vm arg type_mask =
     (if E_type arg AND type_mask = 0 then Inl (Runtime_error vm ''Type ERROR: Type mismatch'')
      else if E_type arg = T_INT then
        (case read_full 8 (Data arg) of
           Inl err \<Rightarrow> Inl (Runtime_error vm (''System ERROR: Get_argument() failed. err: '' @ err))
         | Inr bs \<Rightarrow> Inr (VInt (word_of_nat (le_get bs)), T_INT))
      else if E_type arg = T_FLOAT then
        (case read_full 8 (Data arg) of
           Inl err \<Rightarrow> Inl (Runtime_error vm (''System ERROR: Get_argument() failed. err: '' @ err))
         | Inr bs \<Rightarrow> Inr (VFloat (word_of_nat (le_get bs)), T_FLOAT))
      else if E_type arg = T_BOOL then
        (case read_full 1 (Data arg) of
           Inl err \<Rightarrow> Inl (Runtime_error vm (''System ERROR: Get_argument() failed. err: '' @ err))
         | Inr bs \<Rightarrow> Inr (VBool (le_get bs \<noteq> 0), T_BOOL))
      else if E_type arg = T_STR then Inr (VStr (Data arg), T_STR)
      else if E_type arg = T_LABEL then Inr (VStr (Data arg), T_LABEL)
      else Inl (Runtime_error vm (''System ERROR: Unknown typeid '' @ format_int (E_type arg)
                  @ ''. Maybe incompatible bytecode?'')))"

partial_function (option) Get_argument ::
  "IcebergVM \<Rightarrow> Entity \<Rightarrow> int \<Rightarrow> (error + hostval \<times> int) option" where
  "Get_argument vm arg type_mask =
     (if E_type arg = T_UNDET then
        (case map_of (var_table vm) (Data arg) of
           None \<Rightarrow> Some (Inl (Runtime_error vm (''Argument ERROR: Unbound symbol '' @ Data arg)))
         | Some sym_value \<Rightarrow> Get_argument vm sym_value type_mask)
      else Some (Get_argument_decode vm arg type_mask))"

definition Get_baresymbol :: "IcebergVM \<Rightarrow> Entity \<Rightarrow> (error + string) option" where
  "Get_baresymbol vm val =
     (if E_type val \<noteq> T_UNDET then abort (Runtime_error vm ''Type ERROR: Type mismatch'')
      else ret (Data val))"

text \<open>
  \<^verbatim>\<open>itoentity\<close> switches on \<^verbatim>\<open>reflect.TypeOf(value).Kind()\<close> and then asserts the exact
  type.  \<^verbatim>\<open>reflect.TypeOf\<close> of the nil interface is nil, and calling \<^verbatim>\<open>Kind\<close> on it panics;
  a named type of one of the four kinds enters its case and fails the type assertion.
\<close>

definition itoentity :: "IcebergVM \<Rightarrow> hostval \<Rightarrow> error + Entity" where
  "itoentity vm val =
     (case val of
        VInt i \<Rightarrow> Inr \<lparr>Data = put_uint64 i, E_type = T_INT\<rparr>
      | VFloat f \<Rightarrow> Inr \<lparr>Data = put_uint64 f, E_type = T_FLOAT\<rparr>
      | VBool b \<Rightarrow> Inr \<lparr>Data = put_bool b, E_type = T_BOOL\<rparr>
      | VStr s \<Rightarrow> Inr \<lparr>Data = s, E_type = T_STR\<rparr>
      | VNil \<Rightarrow> Inl (GoPanic ''runtime error: invalid memory address or nil pointer dereference'')
      | VNamed \<Rightarrow> Inl (GoPanic ''interface conversion'')
      | VOther \<Rightarrow>
          Inl (Runtime_error vm
                 ''VM ERROR: Tried to convert a value with type that is not compatible with Iceberg''))"

definition Assign_var :: "go_runtime \<Rightarrow> IcebergVM \<Rightarrow> string \<Rightarrow> hostval \<Rightarrow> (error + IcebergVM) option"
  where
  "Assign_var rt vm symbol val =
     (case itoentity vm val of
        Inl e \<Rightarrow> abort e
      | Inr source \<Rightarrow>
          (case map_of (var_table vm) symbol of
             Some registered \<Rightarrow>
               if E_type registered \<noteq> E_type source then
                 abort (Runtime_error vm ''Type ERROR: Type mismatch'')
               else ret (vm\<lparr>var_table := AList.update symbol source (var_table vm)\<rparr>)
           | None \<Rightarrow>
               (case conv_arg rt symbol of
                  Inl e \<Rightarrow> abort e
                | Inr test_ent \<Rightarrow>
                    if E_type test_ent \<noteq> T_UNDET then
                      abort (Runtime_error vm (''Type ERROR: Invalid symbol name '' @ symbol))
                    else ret (vm\<lparr>var_table := AList.update symbol source (var_table vm)\<rparr>))))"

subsection \<open>Built-in handlers\<close>

definition inst_nop :: handler where
  "inst_nop args vm = ret vm"

definition inst_let :: "go_runtime \<Rightarrow> handler" where
  "inst_let rt args vm =
     and_then (arg_at args 0) (\<lambda>a0.
     and_then (Get_baresymbol vm a0) (\<lambda>sym_name.
     and_then (arg_at args 1) (\<lambda>a1.
     and_then (Get_argument vm a1 T_ANY) (\<lambda>(val, _).
     Assign_var rt vm sym_name val))))"

text \<open>Go's \<^verbatim>\<open>%\<close> on \<^verbatim>\<open>int64\<close> with a nonzero divisor: the remainder has the sign of the dividend.\<close>

definition int64_rem :: "int64 \<Rightarrow> int64 \<Rightarrow> int64" where
  "int64_rem x y = word_of_int (sgn (sint x) * (\<bar>sint x\<bar> mod \<bar>sint y\<bar>))"

text \<open>
  The \<^verbatim>\<open>switch operator\<close> of \<^verbatim>\<open>arb_calc\<close>: the value of \<^verbatim>\<open>source\<close> and of \<^verbatim>\<open>is_divr\<close>.  The
  integer remainder panics in the Go run time when the converted divisor is zero.
\<close>

definition arb_calc_switch ::
  "go_runtime \<Rightarrow> IcebergVM \<Rightarrow> string \<Rightarrow> float64 \<Rightarrow> float64 \<Rightarrow> (error + float64 \<times> bool) option"
  where
  "arb_calc_switch rt vm operator ope_a_s ope_b_s =
     (if operator = ''+'' then ret (f_add rt ope_a_s ope_b_s, False)
      else if operator = ''-'' then ret (f_sub rt ope_a_s ope_b_s, False)
      else if operator = ''*'' then ret (f_mul rt ope_a_s ope_b_s, False)
      else if operator = ''//'' then
        (if f64_is_zero ope_b_s then abort (Runtime_error vm ''Math ERROR: Division by zero'')
         else ret (Floor rt (f_quo rt ope_a_s ope_b_s), False))
      else if operator = ''/'' then
        (if f64_is_zero ope_b_s then abort (Runtime_error vm ''Math ERROR: Division by zero'')
         else ret (f_quo rt ope_a_s ope_b_s, True))
      else if operator = ''%'' then
        (if f64_is_zero ope_b_s then abort (Runtime_error vm ''Math ERROR: Division by zero'')
         else if int64_of_float64 ope_b_s = 0 then
           abort (GoPanic ''runtime error: integer divide by zero'')
         else ret (float64_of_int64
                     (int64_rem (int64_of_float64 ope_a_s) (int64_of_float64 ope_b_s)), False))
      else if operator = ''**'' then ret (Pow rt ope_a_s ope_b_s, False)
      else abort (Runtime_error vm (''System ERROR: Unknown operator '' @ operator
                    @ '' Possibly a bug in VM'')))"

definition arb_calc :: "go_runtime \<Rightarrow> Entity list \<Rightarrow> string \<Rightarrow> IcebergVM \<Rightarrow> (error + IcebergVM) option"
  where
  "arb_calc rt args operator vm =
     and_then (arg_at args 0) (\<lambda>a0.
     and_then (Get_argument vm a0 (T_INT OR T_FLOAT)) (\<lambda>(ope_a, type_a).
     and_then (arg_at args 1) (\<lambda>a1.
     and_then (Get_argument vm a1 type_a) (\<lambda>(ope_b, _).
     and_then
       (if type_a = T_INT then
          and_then (as_int64 ope_a) (\<lambda>x.
          and_then (as_int64 ope_b) (\<lambda>y.
          ret (float64_of_int64 x, float64_of_int64 y)))
        else
          and_then (as_float64 ope_a) (\<lambda>x.
          and_then (as_float64 ope_b) (\<lambda>y.
          ret (x, y))))
       (\<lambda>(ope_a_s, ope_b_s).
     and_then (arb_calc_switch rt vm operator ope_a_s ope_b_s) (\<lambda>(source, is_divr).
     and_then (arg_at args 2) (\<lambda>a2.
     and_then (Get_baresymbol vm a2) (\<lambda>sym_name.
     Assign_var rt vm sym_name
       (if type_a = T_INT \<and> \<not> is_divr then VInt (int64_of_float64 source)
        else VFloat source)))))))))"

definition inst_add :: "go_runtime \<Rightarrow> handler" where
  "inst_add rt args vm = arb_calc rt args ''+'' vm"

definition inst_sub :: "go_runtime \<Rightarrow> handler" where
  "inst_sub rt args vm = arb_calc rt args ''-'' vm"

definition inst_mul :: "go_runtime \<Rightarrow> handler" where
  "inst_mul rt args vm = arb_calc rt args ''*'' vm"

definition inst_div :: "go_runtime \<Rightarrow> handler" where
  "inst_div rt args vm = arb_calc rt args ''//'' vm"

definition inst_div_r :: "go_runtime \<Rightarrow> handler" where
  "inst_div_r rt args vm = arb_calc rt args ''/'' vm"

definition inst_mod :: "go_runtime \<Rightarrow> handler" where
  "inst_mod rt args vm = arb_calc rt args ''%'' vm"

definition inst_pow :: "go_runtime \<Rightarrow> handler" where
  "inst_pow rt args vm = arb_calc rt args ''**'' vm"

text \<open>Go compares strings byte by byte; \<^verbatim>\<open>%x\<close> prints a string as the hexadecimal of its bytes.\<close>

fun str_lt :: "string \<Rightarrow> string \<Rightarrow> bool" where
  "str_lt [] [] = False"
| "str_lt [] (y # ys) = True"
| "str_lt (x # xs) [] = False"
| "str_lt (x # xs) (y # ys) = ((of_char x :: nat) < of_char y \<or> (x = y \<and> str_lt xs ys))"

definition hex_digit :: "nat \<Rightarrow> char" where
  "hex_digit d = (if d < 10 then char_of (48 + d) else char_of (87 + d))"

definition hex_of_string :: "string \<Rightarrow> string" where
  "hex_of_string s = concat (map (\<lambda>c. [hex_digit (of_char c div 16), hex_digit (of_char c mod 16)]) s)"

definition cmp_str :: "IcebergVM \<Rightarrow> string \<Rightarrow> string \<Rightarrow> string \<Rightarrow> (error + bool) option" where
  "cmp_str vm ope_b a c =
     (if ope_b = ''>'' then ret (str_lt c a)
      else if ope_b = ''>='' then ret (\<not> str_lt a c)
      else if ope_b = ''=='' then ret (a = c)
      else if ope_b = ''<='' then ret (\<not> str_lt c a)
      else if ope_b = ''<'' then ret (str_lt a c)
      else if ope_b = ''!='' then ret (a \<noteq> c)
      else abort (Runtime_error vm (''Argument ERROR: Unknown oeprator '' @ ope_b)))"

definition cmp_float :: "IcebergVM \<Rightarrow> string \<Rightarrow> float64 \<Rightarrow> float64 \<Rightarrow> (error + bool) option" where
  "cmp_float vm ope_b ope_a_s ope_c_s =
     (if ope_b = ''>'' then ret (f64_lt ope_c_s ope_a_s)
      else if ope_b = ''>='' then ret (f64_le ope_c_s ope_a_s)
      else if ope_b = ''=='' then ret (f64_eq ope_a_s ope_c_s)
      else if ope_b = ''<='' then ret (f64_le ope_a_s ope_c_s)
      else if ope_b = ''<'' then ret (f64_lt ope_a_s ope_c_s)
      else if ope_b = ''!='' then ret (\<not> f64_eq ope_a_s ope_c_s)
      else abort (Runtime_error vm (''Argument ERROR: Unknown oeprator '' @ hex_of_string ope_b
                    @ '', '' @ hex_of_string ''<'')))"

definition inst_cmp :: "go_runtime \<Rightarrow> handler" where
  "inst_cmp rt args vm =
     and_then (arg_at args 0) (\<lambda>a0.
     and_then (Get_argument vm a0 (T_ANY XOR T_BOOL XOR T_LABEL)) (\<lambda>(ope_a, type_a).
     and_then (arg_at args 1) (\<lambda>a1.
     and_then (Get_argument vm a1 T_STR) (\<lambda>(ope_b, _).
     and_then (arg_at args 2) (\<lambda>a2.
     and_then (Get_argument vm a2 type_a) (\<lambda>(ope_c, _).
     and_then
       (if type_a = T_STR then
          and_then (as_string ope_b) (\<lambda>op.
          and_then (as_string ope_a) (\<lambda>a.
          and_then (as_string ope_c) (\<lambda>c.
          cmp_str vm op a c)))
        else
          and_then
            (if type_a = T_INT then
               and_then (as_int64 ope_a) (\<lambda>x.
               and_then (as_int64 ope_c) (\<lambda>y.
               ret (float64_of_int64 x, float64_of_int64 y)))
             else
               and_then (as_float64 ope_a) (\<lambda>x.
               and_then (as_float64 ope_c) (\<lambda>y.
               ret (x, y))))
            (\<lambda>(ope_a_s, ope_c_s).
          and_then (as_string ope_b) (\<lambda>op.
          cmp_float vm op ope_a_s ope_c_s)))
       (\<lambda>source.
     and_then (arg_at args 3) (\<lambda>a3.
     and_then (Get_baresymbol vm a3) (\<lambda>sym_name.
     Assign_var rt vm sym_name (VBool source))))))))))"

definition arb_bool :: "go_runtime \<Rightarrow> Entity list \<Rightarrow> string \<Rightarrow> IcebergVM \<Rightarrow> (error + IcebergVM) option"
  where
  "arb_bool rt args operator vm =
     and_then (arg_at args 0) (\<lambda>a0.
     and_then (Get_argument vm a0 T_BOOL) (\<lambda>(ope_a, _).
     and_then (arg_at args 1) (\<lambda>a1.
     and_then (Get_argument vm a1 T_BOOL) (\<lambda>(ope_b, _).
     and_then
       (if operator = ''and'' then
          and_then (as_bool ope_a) (\<lambda>x. if x then as_bool ope_b else ret False)
        else if operator = ''or'' then
          and_then (as_bool ope_a) (\<lambda>x. if x then ret True else as_bool ope_b)
        else if operator = ''xor'' then
          and_then (as_bool ope_a) (\<lambda>x. and_then (as_bool ope_b) (\<lambda>y. ret (x \<noteq> y)))
        else abort (Runtime_error vm (''System ERROR: Unknown operator '' @ operator
                      @ '' Possibly a bug in VM'')))
       (\<lambda>source.
     and_then (arg_at args 2) (\<lambda>a2.
     and_then (Get_baresymbol vm a2) (\<lambda>sym_name.
     Assign_var rt vm sym_name (VBool source))))))))"

definition inst_and :: "go_runtime \<Rightarrow> handler" where
  "inst_and rt args vm = arb_bool rt args ''and'' vm"

definition inst_or :: "go_runtime \<Rightarrow> handler" where
  "inst_or rt args vm = arb_bool rt args ''or'' vm"

definition inst_xor :: "go_runtime \<Rightarrow> handler" where
  "inst_xor rt args vm = arb_bool rt args ''xor'' vm"

definition inst_not :: "go_runtime \<Rightarrow> handler" where
  "inst_not rt args vm =
     and_then (arg_at args 0) (\<lambda>a0.
     and_then (Get_argument vm a0 T_BOOL) (\<lambda>(operand, _).
     and_then (arg_at args 1) (\<lambda>a1.
     and_then (Get_baresymbol vm a1) (\<lambda>sym_name.
     and_then (as_bool operand) (\<lambda>b.
     Assign_var rt vm sym_name (VBool (\<not> b)))))))"

definition inst_int :: "go_runtime \<Rightarrow> handler" where
  "inst_int rt args vm =
     and_then (arg_at args 1) (\<lambda>a1.
     and_then (Get_argument vm a1 (T_INT OR T_FLOAT)) (\<lambda>(operand, type_o).
     and_then
       (if type_o = T_INT then
          and_then (as_int64 operand) (\<lambda>i.
          ret (Runtime_warning vm ''Unnecessary cast T_INT->T_INT'', i))
        else and_then (as_float64 operand) (\<lambda>f. ret (vm, int64_of_float64 f)))
       (\<lambda>(vm1, source).
     and_then (arg_at args 0) (\<lambda>a0.
     and_then (Get_baresymbol vm1 a0) (\<lambda>sym_name.
     Assign_var rt vm1 sym_name (VInt source))))))"

definition inst_float :: "go_runtime \<Rightarrow> handler" where
  "inst_float rt args vm =
     and_then (arg_at args 1) (\<lambda>a1.
     and_then (Get_argument vm a1 (T_INT OR T_FLOAT)) (\<lambda>(operand, type_o).
     and_then
       (if type_o = T_FLOAT then
          and_then (as_float64 operand) (\<lambda>f.
          ret (Runtime_warning vm ''Unnecessary cast T_FLOAT->T_FLOAT'', f))
        else and_then (as_int64 operand) (\<lambda>i. ret (vm, float64_of_int64 i)))
       (\<lambda>(vm1, source).
     and_then (arg_at args 0) (\<lambda>a0.
     and_then (Get_baresymbol vm1 a0) (\<lambda>sym_name.
     Assign_var rt vm1 sym_name (VFloat source))))))"

definition inst_bool :: "go_runtime \<Rightarrow> handler" where
  "inst_bool rt args vm =
     and_then (arg_at args 1) (\<lambda>a1.
     and_then (Get_argument vm a1 (T_ANY XOR T_LABEL)) (\<lambda>(operand, type_o).
     and_then
       (if type_o = T_INT then and_then (as_int64 operand) (\<lambda>i. ret (vm, i \<noteq> 0))
        else if type_o = T_FLOAT then
          and_then (as_float64 operand) (\<lambda>f. ret (vm, \<not> f64_is_zero f))
        else if type_o = T_BOOL then
          and_then (as_bool operand) (\<lambda>b.
          ret (Runtime_warning vm ''Unnecessary cast T_BOOL->T_BOOL'', b))
        else if type_o = T_STR then and_then (as_string operand) (\<lambda>s. ret (vm, s \<noteq> []))
        else ret (vm, False))
       (\<lambda>(vm1, source).
     and_then (arg_at args 0) (\<lambda>a0.
     and_then (Get_baresymbol vm1 a0) (\<lambda>sym_name.
     Assign_var rt vm1 sym_name (VBool source))))))"

definition inst_str :: "go_runtime \<Rightarrow> handler" where
  "inst_str rt args vm =
     and_then (arg_at args 1) (\<lambda>a1.
     and_then (Get_argument vm a1 (T_ANY XOR T_LABEL)) (\<lambda>(operand, type_o).
     and_then
       (if type_o = T_INT then and_then (as_int64 operand) (\<lambda>i. ret (vm, FormatInt i))
        else if type_o = T_FLOAT then
          and_then (as_float64 operand) (\<lambda>f. ret (vm, FormatFloat rt f))
        else if type_o = T_BOOL then
          and_then (as_bool operand) (\<lambda>b. ret (vm, if b then ''false'' else ''true''))
        else if type_o = T_STR then
          and_then (as_string operand) (\<lambda>s.
          ret (Runtime_warning vm ''Unnecessary cast T_STR->T_STR'', s))
        else ret (vm, []))
       (\<lambda>(vm1, source).
     and_then (arg_at args 0) (\<lambda>a0.
     and_then (Get_baresymbol vm1 a0) (\<lambda>sym_name.
     Assign_var rt vm1 sym_name (VStr source))))))"

definition inst_cat :: "go_runtime \<Rightarrow> handler" where
  "inst_cat rt args vm =
     and_then (arg_at args 0) (\<lambda>a0.
     and_then (Get_argument vm a0 T_STR) (\<lambda>(ope_a, _).
     and_then (arg_at args 1) (\<lambda>a1.
     and_then (Get_argument vm a1 T_STR) (\<lambda>(ope_b, _).
     and_then (arg_at args 2) (\<lambda>a2.
     and_then (Get_baresymbol vm a2) (\<lambda>sym_name.
     and_then (as_string ope_a) (\<lambda>a.
     and_then (as_string ope_b) (\<lambda>b.
     Assign_var rt vm sym_name (VStr (a @ b))))))))))"

definition inst_goto :: handler where
  "inst_goto args vm =
     and_then (arg_at args 0) (\<lambda>a0.
     and_then (Get_argument vm a0 T_LABEL) (\<lambda>(operand, _).
     and_then (as_string operand) (\<lambda>name.
     (case label_table vm name of
        None \<Rightarrow> abort (Runtime_error vm (''Argument ERROR: Unset label '' @ name))
      | Some prog_idx \<Rightarrow> ret (vm\<lparr>exec_pos := prog_idx\<rparr>)))))"

definition inst_when :: handler where
  "inst_when args vm =
     and_then (arg_at args 1) (\<lambda>a1.
     and_then (Get_argument vm a1 T_LABEL) (\<lambda>(operand, _).
     and_then (arg_at args 0) (\<lambda>a0.
     and_then (Get_argument vm a0 T_BOOL) (\<lambda>(criteria, _).
     and_then (as_string operand) (\<lambda>name.
     (case label_table vm name of
        None \<Rightarrow> abort (Runtime_error vm (''Argument ERROR: Unset label '' @ name))
      | Some prog_idx \<Rightarrow>
          and_then (as_bool criteria) (\<lambda>b.
          if b then ret (vm\<lparr>exec_pos := prog_idx\<rparr>) else ret vm)))))))"

text \<open>
  \<^verbatim>\<open>dump\<close> resolves every stored value; what it prints is not modelled.  Go walks the map
  in an unspecified order, the model in the order of the association list.
\<close>

fun inst_dump_loop :: "IcebergVM \<Rightarrow> (string \<times> Entity) list \<Rightarrow> (error + unit) option" where
  "inst_dump_loop vm [] = ret ()"
| "inst_dump_loop vm (kv # rest) =
     and_then (Get_argument vm (snd kv) T_ANY) (\<lambda>_. inst_dump_loop vm rest)"

definition inst_dump :: handler where
  "inst_dump args vm =
     and_then (inst_dump_loop vm (AList.clearjunk (var_table vm))) (\<lambda>_. ret vm)"

subsection \<open>\<^verbatim>\<open>Init\<close> and the dispatch loop\<close>

definition Init_Inst_table :: "go_runtime \<Rightarrow> inst_table" where
  "Init_Inst_table rt =
     [''nop'' \<mapsto> \<lparr>Function = inst_nop, N_args = 0\<rparr>,
      ''let'' \<mapsto> \<lparr>Function = inst_let rt, N_args = 2\<rparr>,
      ''add'' \<mapsto> \<lparr>Function = inst_add rt, N_args = 3\<rparr>,
      ''sub'' \<mapsto> \<lparr>Function = inst_sub rt, N_args = 3\<rparr>,
      ''mul'' \<mapsto> \<lparr>Function = inst_mul rt, N_args = 3\<rparr>,
      ''div'' \<mapsto> \<lparr>Function = inst_div rt, N_args = 3\<rparr>,
      ''div_r'' \<mapsto> \<lparr>Function = inst_div_r rt, N_args = 3\<rparr>,
      ''mod'' \<mapsto> \<lparr>Function = inst_mod rt, N_args = 3\<rparr>,
      ''pow'' \<mapsto> \<lparr>Function = inst_pow rt, N_args = 3\<rparr>,
      ''cmp'' \<mapsto> \<lparr>Function = inst_cmp rt, N_args = 4\<rparr>,
      ''and'' \<mapsto> \<lparr>Function = inst_and rt, N_args = 3\<rparr>,
      ''or'' \<mapsto> \<lparr>Function = inst_or rt, N_args = 3\<rparr>,
      ''xor'' \<mapsto> \<lparr>Function = inst_xor rt, N_args = 3\<rparr>,
      ''not'' \<mapsto> \<lparr>Function = inst_not rt, N_args = 2\<rparr>,
      ''int'' \<mapsto> \<lparr>Function = inst_int rt, N_args = 2\<rparr>,
      ''float'' \<mapsto> \<lparr>Function = inst_float rt, N_args = 2\<rparr>,
      ''bool'' \<mapsto> \<lparr>Function = inst_bool rt, N_args = 2\<rparr>,
      ''str'' \<mapsto> \<lparr>Function = inst_str rt, N_args = 2\<rparr>,
      ''cat'' \<mapsto> \<lparr>Function = inst_cat rt, N_args = 3\<rparr>,
      ''goto'' \<mapsto> \<lparr>Function = inst_goto, N_args = 1\<rparr>,
      ''when'' \<mapsto> \<lparr>Function = inst_when, N_args = 2\<rparr>,
      ''dump'' \<mapsto> \<lparr>Function = inst_dump, N_args = 0\<rparr>]"

definition Init :: "IcebergVM \<Rightarrow> IcebergVM" where
  "Init vm = vm\<lparr>label_table := Map.empty, var_table := []\<rparr>"

text \<open>
  The body of the loop of \<^verbatim>\<open>Run\<close>: fetch, dispatch, increment.  A mnemonic without an
  entry in \<^verbatim>\<open>Inst_table\<close> yields the zero descriptor, and calling its nil \<^verbatim>\<open>Function\<close>
  panics.
\<close>

definition Run_step :: "inst_table \<Rightarrow> Bytecode \<Rightarrow> IcebergVM \<Rightarrow> (error + IcebergVM) option" where
  "Run_step Inst_table code vm =
     (if exec_pos vm < 0 then abort (GoPanic ''runtime error: index out of range'')
      else
        (let instr = inst_list code ! nat (exec_pos vm)
         in case Inst_table (Inst instr) of
              None \<Rightarrow>
                abort (GoPanic ''runtime error: invalid memory address or nil pointer dereference'')
            | Some d \<Rightarrow>
                and_then (Function d (Args instr) vm) (\<lambda>vm'.
                ret (vm'\<lparr>exec_pos := exec_pos vm' + 1\<rparr>))))"

text \<open>The loop \<^verbatim>\<open>for ;vm.exec_pos<=inst_max; { ... }\<close>; it need not end.\<close>

partial_function (option) Run_loop ::
  "inst_table \<Rightarrow> Bytecode \<Rightarrow> IcebergVM \<Rightarrow> (error + IcebergVM) option" where
  "Run_loop Inst_table code vm =
     (if exec_pos vm \<le> int (length (inst_list code)) - 1 then
        (case Run_step Inst_table code vm of
           None \<Rightarrow> None
         | Some (Inl e) \<Rightarrow> Some (Inl e)
         | Some (Inr vm') \<Rightarrow> Run_loop Inst_table code vm')
      else Some (Inr vm))"

definition Run :: "inst_table \<Rightarrow> Bytecode \<Rightarrow> IcebergVM \<Rightarrow> (error + IcebergVM) option" where
  "Run Inst_table code vm =
     Run_loop Inst_table code (vm\<lparr>exec_pos := 0, label_table := bc_label_table code\<rparr>)"




subsection \<open>The host program of \<^verbatim>\<open>src/misc/benchmark.go\<close>\<close>

definition inst_print :: handler where
  "inst_print args vm =
     and_then (arg_at args 0) (\<lambda>a0.
     and_then (Get_argument vm a0 T_STR) (\<lambda>(operand, _).
     and_then (as_string operand) (\<lambda>_. ret vm)))"

definition start_Inst_table :: "go_runtime \<Rightarrow> inst_table" where
  "start_Inst_table rt = (Init_Inst_table rt)(''print'' \<mapsto> \<lparr>Function = inst_print, N_args = 1\<rparr>)"

text \<open>The zero value \<^verbatim>\<open>iceberg.IcebergVM{}\<close>, and \<^verbatim>\<open>main\<close> from the script text on.\<close>

definition vm_zero :: IcebergVM where
  "vm_zero = \<lparr>exec_pos = 0, label_table = Map.empty, var_table = [], warnings = []\<rparr>"

definition run_script :: "go_runtime \<Rightarrow> string \<Rightarrow> (error + IcebergVM) option" where
  "run_script rt script =
     (case Gen_bytecode rt (start_Inst_table rt) (Init vm_zero) script of
        Inl e \<Rightarrow> Some (Inl e)
      | Inr (bytecode, vm) \<Rightarrow> Run (start_Inst_table rt) bytecode vm)"

text \<open>
  A runtime for the worked examples below.  Its \<open>ParseFloat\<close> rejects every token, as Go's
  does for the tokens of these examples (names made of letters), and none of the examples
  reaches its arithmetic.
\<close>

definition example_runtime :: go_runtime where
  "example_runtime =
     \<lparr>ParseFloat = (\<lambda>s. None), FormatFloat = (\<lambda>f. []),
      f_add = (\<lambda>a b. a), f_sub = (\<lambda>a b. a), f_mul = (\<lambda>a b. a), f_quo = (\<lambda>a b. a),
      Floor = (\<lambda>a. a), Pow = (\<lambda>a b. a)\<rparr>"

section \<open>Properties\<close>

lemmas kind_defs = T_UNDET_def T_INT_def T_FLOAT_def T_BOOL_def T_STR_def T_LABEL_def T_ANY_def

lemmas rune_defs = dq_rune_def sq_rune_def comma_rune_def space_rune_def

subsection \<open>Payloads and results\<close>

lemma le_get_le_put: "le_get (le_put k n) = n mod 256 ^ k"
proof (induction k arbitrary: n)
  case 0
  then show ?case by simp
next
  case (Suc k)
  have "n mod 256 + 256 * (n div 256 mod 256 ^ k) = n mod (256 * 256 ^ k)"
    by (simp add: mod_mult2_eq)
  with Suc show ?case by simp
qed

lemma length_le_put: "length (le_put k n) = k"
  by (induction k arbitrary: n) auto

lemma length_put_uint64: "length (put_uint64 w) = 8"
  by (simp add: put_uint64_def length_le_put)

lemma get_put_uint64: "word_of_nat (le_get (put_uint64 w)) = w"
proof -
  have "unat w < 256 ^ 8"
    using unsigned_less [of w] by simp
  then show ?thesis
    by (simp add: put_uint64_def le_get_le_put)
qed

lemma read_full_put_uint64: "read_full 8 (put_uint64 w) = Inr (put_uint64 w)"
  by (simp add: read_full_def length_put_uint64)

lemma read_full_put_bool: "read_full 1 (put_bool b) = Inr (put_bool b)"
  by (simp add: read_full_def put_bool_def)

lemma le_get_put_bool: "(le_get (put_bool b) \<noteq> 0) = b"
  by (simp add: put_bool_def)

lemma and_then_simps:
  "and_then (ret x) f = f x"
  "and_then (abort e) f = abort e"
  "and_then (Some (Inr x)) f = f x"
  "and_then (Some (Inl e)) f = Some (Inl e)"
  "and_then None f = None"
  by (simp_all add: and_then_def ret_def abort_def)


subsection \<open>Kinds and the argument resolver\<close>

lemma kind_distinct:
  "T_INT \<noteq> 0"
  "0 \<noteq> T_INT"
  "T_FLOAT \<noteq> 0"
  "0 \<noteq> T_FLOAT"
  "T_BOOL \<noteq> 0"
  "0 \<noteq> T_BOOL"
  "T_STR \<noteq> 0"
  "0 \<noteq> T_STR"
  "T_LABEL \<noteq> 0"
  "0 \<noteq> T_LABEL"
  "T_INT \<noteq> T_FLOAT"
  "T_INT \<noteq> T_BOOL"
  "T_INT \<noteq> T_STR"
  "T_INT \<noteq> T_LABEL"
  "T_INT \<noteq> T_UNDET"
  "T_FLOAT \<noteq> T_INT"
  "T_FLOAT \<noteq> T_BOOL"
  "T_FLOAT \<noteq> T_STR"
  "T_FLOAT \<noteq> T_LABEL"
  "T_FLOAT \<noteq> T_UNDET"
  "T_BOOL \<noteq> T_INT"
  "T_BOOL \<noteq> T_FLOAT"
  "T_BOOL \<noteq> T_STR"
  "T_BOOL \<noteq> T_LABEL"
  "T_BOOL \<noteq> T_UNDET"
  "T_STR \<noteq> T_INT"
  "T_STR \<noteq> T_FLOAT"
  "T_STR \<noteq> T_BOOL"
  "T_STR \<noteq> T_LABEL"
  "T_STR \<noteq> T_UNDET"
  "T_LABEL \<noteq> T_INT"
  "T_LABEL \<noteq> T_FLOAT"
  "T_LABEL \<noteq> T_BOOL"
  "T_LABEL \<noteq> T_STR"
  "T_LABEL \<noteq> T_UNDET"
  "T_UNDET \<noteq> T_INT"
  "T_UNDET \<noteq> T_FLOAT"
  "T_UNDET \<noteq> T_BOOL"
  "T_UNDET \<noteq> T_STR"
  "T_UNDET \<noteq> T_LABEL"
  by (simp_all add: kind_defs)

lemma kind_mask:
  "T_INT AND T_INT \<noteq> 0"
  "T_INT AND T_FLOAT = 0"
  "T_INT AND T_BOOL = 0"
  "T_INT AND T_STR = 0"
  "T_INT AND T_LABEL = 0"
  "T_INT AND T_ANY \<noteq> 0"
  "T_INT AND (T_INT OR T_FLOAT) \<noteq> 0"
  "T_INT AND (T_ANY XOR T_LABEL) \<noteq> 0"
  "T_INT AND (T_ANY XOR T_BOOL XOR T_LABEL) \<noteq> 0"
  "T_FLOAT AND T_INT = 0"
  "T_FLOAT AND T_FLOAT \<noteq> 0"
  "T_FLOAT AND T_BOOL = 0"
  "T_FLOAT AND T_STR = 0"
  "T_FLOAT AND T_LABEL = 0"
  "T_FLOAT AND T_ANY \<noteq> 0"
  "T_FLOAT AND (T_INT OR T_FLOAT) \<noteq> 0"
  "T_FLOAT AND (T_ANY XOR T_LABEL) \<noteq> 0"
  "T_FLOAT AND (T_ANY XOR T_BOOL XOR T_LABEL) \<noteq> 0"
  "T_BOOL AND T_INT = 0"
  "T_BOOL AND T_FLOAT = 0"
  "T_BOOL AND T_BOOL \<noteq> 0"
  "T_BOOL AND T_STR = 0"
  "T_BOOL AND T_LABEL = 0"
  "T_BOOL AND T_ANY \<noteq> 0"
  "T_BOOL AND (T_INT OR T_FLOAT) = 0"
  "T_BOOL AND (T_ANY XOR T_LABEL) \<noteq> 0"
  "T_BOOL AND (T_ANY XOR T_BOOL XOR T_LABEL) = 0"
  "T_STR AND T_INT = 0"
  "T_STR AND T_FLOAT = 0"
  "T_STR AND T_BOOL = 0"
  "T_STR AND T_STR \<noteq> 0"
  "T_STR AND T_LABEL = 0"
  "T_STR AND T_ANY \<noteq> 0"
  "T_STR AND (T_INT OR T_FLOAT) = 0"
  "T_STR AND (T_ANY XOR T_LABEL) \<noteq> 0"
  "T_STR AND (T_ANY XOR T_BOOL XOR T_LABEL) \<noteq> 0"
  "T_LABEL AND T_INT = 0"
  "T_LABEL AND T_FLOAT = 0"
  "T_LABEL AND T_BOOL = 0"
  "T_LABEL AND T_STR = 0"
  "T_LABEL AND T_LABEL \<noteq> 0"
  "T_LABEL AND T_ANY \<noteq> 0"
  "T_LABEL AND (T_INT OR T_FLOAT) = 0"
  "T_LABEL AND (T_ANY XOR T_LABEL) = 0"
  "T_LABEL AND (T_ANY XOR T_BOOL XOR T_LABEL) = 0"
  by (simp_all add: kind_defs)


lemma Get_argument_literal:
  "E_type a \<noteq> T_UNDET \<Longrightarrow> Get_argument vm a m = Some (Get_argument_decode vm a m)"
  by (subst Get_argument.simps) simp

lemma Get_argument_symbol:
  "E_type a = T_UNDET \<Longrightarrow> map_of (var_table vm) (Data a) = Some e \<Longrightarrow>
   Get_argument vm a m = Get_argument vm e m"
  by (subst Get_argument.simps) simp

lemma decode_INT:
  "Get_argument_decode vm \<lparr>Data = put_uint64 i, E_type = T_INT\<rparr> m =
     (if T_INT AND m = 0 then Inl (Runtime_error vm ''Type ERROR: Type mismatch'')
      else Inr (VInt i, T_INT))"
  by (simp add: Get_argument_decode_def read_full_put_uint64 get_put_uint64 kind_distinct)

lemma decode_FLOAT:
  "Get_argument_decode vm \<lparr>Data = put_uint64 f, E_type = T_FLOAT\<rparr> m =
     (if T_FLOAT AND m = 0 then Inl (Runtime_error vm ''Type ERROR: Type mismatch'')
      else Inr (VFloat f, T_FLOAT))"
  by (simp add: Get_argument_decode_def read_full_put_uint64 get_put_uint64 kind_distinct)

lemma decode_BOOL:
  "Get_argument_decode vm \<lparr>Data = put_bool b, E_type = T_BOOL\<rparr> m =
     (if T_BOOL AND m = 0 then Inl (Runtime_error vm ''Type ERROR: Type mismatch'')
      else Inr (VBool b, T_BOOL))"
  using read_full_put_bool [of b] le_get_put_bool [of b]
  by (simp add: Get_argument_decode_def kind_distinct del: One_nat_def)

lemma decode_STR:
  "E_type a = T_STR \<Longrightarrow> Get_argument_decode vm a m =
     (if T_STR AND m = 0 then Inl (Runtime_error vm ''Type ERROR: Type mismatch'')
      else Inr (VStr (Data a), T_STR))"
  by (simp add: Get_argument_decode_def kind_distinct)

lemma decode_LABEL:
  "E_type a = T_LABEL \<Longrightarrow> Get_argument_decode vm a m =
     (if T_LABEL AND m = 0 then Inl (Runtime_error vm ''Type ERROR: Type mismatch'')
      else Inr (VStr (Data a), T_LABEL))"
  by (simp add: Get_argument_decode_def kind_distinct)

lemma Get_argument_LABEL:
  "E_type l = T_LABEL \<Longrightarrow> Get_argument vm l T_LABEL = Some (Inr (VStr (Data l), T_LABEL))"
  by (simp add: Get_argument_literal decode_LABEL kind_distinct kind_mask)

subsection \<open>Jumps\<close>

text \<open>
  Claim C9.  \<^verbatim>\<open>when cond, @L\<close> with \<open>@L\<close> absent from the label table stops with the fatal
  run-time error "Unset label", whatever boolean \<open>cond\<close> resolves to, \<open>false\<close> included: the
  handler resolves the label operand and the condition, looks the label up and fails, and
  only then would test the condition.
\<close>

theorem C9_when_unset_label:
  assumes "E_type l = T_LABEL"
    and "Get_argument vm c T_BOOL = Some (Inr (VBool b, k))"
    and "label_table vm (Data l) = None"
  shows "inst_when [c, l] vm =
           Some (Inl (RuntimeError (exec_pos vm) (''Argument ERROR: Unset label '' @ Data l)))"
  using assms
  by (simp add: inst_when_def arg_at_def and_then_simps Get_argument_LABEL as_string_def
      Runtime_error_def abort_def)

theorem C9_when_unset_label_witness:
  "inst_when [\<lparr>Data = put_bool False, E_type = T_BOOL\<rparr>, \<lparr>Data = ''@L'', E_type = T_LABEL\<rparr>] vm_zero =
     Some (Inl (RuntimeError 0 ''Argument ERROR: Unset label @L''))"
proof -
  have c: "Get_argument vm_zero \<lparr>Data = put_bool False, E_type = T_BOOL\<rparr> T_BOOL =
             Some (Inr (VBool False, T_BOOL))"
    by (simp add: Get_argument_literal decode_BOOL kind_distinct kind_mask)
  have l: "label_table vm_zero (Data \<lparr>Data = ''@L'', E_type = T_LABEL\<rparr>) = None"
    by (simp add: vm_zero_def)
  show ?thesis
    using C9_when_unset_label [OF _ c l] by (simp add: vm_zero_def)
qed


text \<open>
  Claim C6.  \<^verbatim>\<open>goto @L\<close> with \<open>@L\<close> absent from the label table stops with the fatal run-time
  error "Unset label".  With \<open>@L\<close> defined, the handler sets the program counter to the
  label's index \<open>i\<close>; the loop body then increments it, so one round of the dispatch loop
  at a \<^verbatim>\<open>goto\<close> ends with the program counter at \<open>i + 1\<close>, and the loop goes on from the
  instruction after the labelled \<^verbatim>\<open>nop\<close>.
\<close>

theorem C6_goto:
  assumes "E_type l = T_LABEL"
  shows "(label_table vm (Data l) = None \<longrightarrow>
            inst_goto [l] vm =
              Some (Inl (RuntimeError (exec_pos vm) (''Argument ERROR: Unset label '' @ Data l))))
       \<and> (\<forall>i. label_table vm (Data l) = Some i \<longrightarrow>
            inst_goto [l] vm = Some (Inr (vm\<lparr>exec_pos := i\<rparr>))
          \<and> (\<forall>Inst_table code d.
                0 \<le> exec_pos vm \<and> exec_pos vm < int (length (inst_list code))
              \<and> inst_list code ! nat (exec_pos vm) = \<lparr>Inst = ''goto'', Args = [l]\<rparr>
              \<and> Inst_table ''goto'' = Some d \<and> Function d = inst_goto \<longrightarrow>
                Run_step Inst_table code vm = Some (Inr (vm\<lparr>exec_pos := i + 1\<rparr>))
              \<and> Run_loop Inst_table code vm = Run_loop Inst_table code (vm\<lparr>exec_pos := i + 1\<rparr>)))"
proof -
  have unset: "inst_goto [l] vm =
      Some (Inl (RuntimeError (exec_pos vm) (''Argument ERROR: Unset label '' @ Data l)))"
    if "label_table vm (Data l) = None"
    using assms that
    by (simp add: inst_goto_def arg_at_def and_then_simps Get_argument_LABEL as_string_def
        Runtime_error_def abort_def)
  have jump: "inst_goto [l] vm = Some (Inr (vm\<lparr>exec_pos := i\<rparr>))"
    if "label_table vm (Data l) = Some i" for i
    using assms that
    by (simp add: inst_goto_def arg_at_def and_then_simps Get_argument_LABEL as_string_def ret_def)
  have step: "Run_step Inst_table code vm = Some (Inr (vm\<lparr>exec_pos := i + 1\<rparr>))"
    if "label_table vm (Data l) = Some i" "0 \<le> exec_pos vm"
      "inst_list code ! nat (exec_pos vm) = \<lparr>Inst = ''goto'', Args = [l]\<rparr>"
      "Inst_table ''goto'' = Some d" "Function d = inst_goto" for i Inst_table code d
    using that jump [OF that(1)]
    by (simp add: Run_step_def and_then_simps ret_def)
  have loop: "Run_loop Inst_table code vm = Run_loop Inst_table code (vm\<lparr>exec_pos := i + 1\<rparr>)"
    if "label_table vm (Data l) = Some i" "0 \<le> exec_pos vm"
      "exec_pos vm < int (length (inst_list code))"
      "inst_list code ! nat (exec_pos vm) = \<lparr>Inst = ''goto'', Args = [l]\<rparr>"
      "Inst_table ''goto'' = Some d" "Function d = inst_goto" for i Inst_table code d
    using step [of i code Inst_table d] that
    by (subst Run_loop.simps) simp
  show ?thesis
    using unset jump step loop by blast
qed

theorem C6_goto_witness:
  "inst_goto [\<lparr>Data = ''@e'', E_type = T_LABEL\<rparr>] vm_zero =
     Some (Inl (RuntimeError 0 ''Argument ERROR: Unset label @e''))
   \<and> inst_goto [\<lparr>Data = ''@e'', E_type = T_LABEL\<rparr>] (vm_zero\<lparr>label_table := [''@e'' \<mapsto> 2]\<rparr>) =
       Some (Inr (vm_zero\<lparr>label_table := [''@e'' \<mapsto> 2], exec_pos := 2\<rparr>))
   \<and> Run_step (start_Inst_table example_runtime)
        \<lparr>inst_list = [\<lparr>Inst = ''goto'', Args = [\<lparr>Data = ''@e'', E_type = T_LABEL\<rparr>]\<rparr>,
                      \<lparr>Inst = ''dump'', Args = []\<rparr>, \<lparr>Inst = ''nop'', Args = []\<rparr>,
                      \<lparr>Inst = ''dump'', Args = []\<rparr>],
         bc_label_table = [''@e'' \<mapsto> 2]\<rparr>
        (vm_zero\<lparr>label_table := [''@e'' \<mapsto> 2]\<rparr>) =
       Some (Inr (vm_zero\<lparr>label_table := [''@e'' \<mapsto> 2], exec_pos := 3\<rparr>))"
proof -
  let ?l = "\<lparr>Data = ''@e'', E_type = T_LABEL\<rparr>"
  let ?vm = "vm_zero\<lparr>label_table := [''@e'' \<mapsto> 2]\<rparr>"
  let ?code = "\<lparr>inst_list = [\<lparr>Inst = ''goto'', Args = [?l]\<rparr>,
                      \<lparr>Inst = ''dump'', Args = []\<rparr>, \<lparr>Inst = ''nop'', Args = []\<rparr>,
                      \<lparr>Inst = ''dump'', Args = []\<rparr>],
         bc_label_table = [''@e'' \<mapsto> 2]\<rparr>"
  have k: "E_type ?l = T_LABEL" by simp
  have a: "inst_goto [?l] vm_zero = Some (Inl (RuntimeError 0 ''Argument ERROR: Unset label @e''))"
    using C6_goto [OF k, of vm_zero] by (simp add: vm_zero_def)
  have lab: "label_table ?vm (Data ?l) = Some 2" by simp
  have pre: "0 \<le> exec_pos ?vm \<and> exec_pos ?vm < int (length (inst_list ?code))
     \<and> inst_list ?code ! nat (exec_pos ?vm) = \<lparr>Inst = ''goto'', Args = [?l]\<rparr>
     \<and> start_Inst_table example_runtime ''goto'' = Some \<lparr>Function = inst_goto, N_args = 1\<rparr>
     \<and> Function \<lparr>Function = inst_goto, N_args = 1\<rparr> = inst_goto"
    by (simp add: vm_zero_def start_Inst_table_def Init_Inst_table_def)
  from C6_goto [OF k, of ?vm] lab
  have b: "inst_goto [?l] ?vm = Some (Inr (?vm\<lparr>exec_pos := 2\<rparr>))"
    and c: "\<forall>Inst_table code d.
                0 \<le> exec_pos ?vm \<and> exec_pos ?vm < int (length (inst_list code))
              \<and> inst_list code ! nat (exec_pos ?vm) = \<lparr>Inst = ''goto'', Args = [?l]\<rparr>
              \<and> Inst_table ''goto'' = Some d \<and> Function d = inst_goto \<longrightarrow>
                Run_step Inst_table code ?vm = Some (Inr (?vm\<lparr>exec_pos := 2 + 1\<rparr>))
              \<and> Run_loop Inst_table code ?vm = Run_loop Inst_table code (?vm\<lparr>exec_pos := 2 + 1\<rparr>)"
    by blast+
  from c pre have "Run_step (start_Inst_table example_runtime) ?code ?vm =
      Some (Inr (?vm\<lparr>exec_pos := 2 + 1\<rparr>))"
    by blast
  with a b show ?thesis by simp
qed

subsection \<open>The variable store\<close>

lemma conv_arg_example_y: "conv_arg example_runtime ''y'' = Inr \<lparr>Data = ''y'', E_type = T_UNDET\<rparr>"
  by (simp add: conv_arg_def ParseInt_def is_digit_def example_runtime_def)

lemma conv_arg_42: "conv_arg rt ''42'' = Inr \<lparr>Data = put_uint64 42, E_type = T_INT\<rparr>"
  by (simp add: conv_arg_def ParseInt_def is_digit_def)

text \<open>
  \<^verbatim>\<open>Assign_var\<close> of a value that \<^verbatim>\<open>itoentity\<close> encodes: on a bound name it updates the
  binding when the kind of the new value equals the bound kind, and otherwise fails with
  "Type mismatch"; on an unbound name for which the operand classifier returns, it inserts
  the binding when the name classifies as \<open>T_UNDET\<close>, and otherwise (a literal such as
  \<^verbatim>\<open>42\<close>) fails with "Invalid symbol name".  It succeeds in exactly these two cases.
\<close>

lemma Assign_var_cases:
  assumes "itoentity vm v = Inr source"
  shows "(\<forall>registered. map_of (var_table vm) name = Some registered \<longrightarrow>
            Assign_var rt vm name v =
              (if E_type source = E_type registered
               then Some (Inr (vm\<lparr>var_table := AList.update name source (var_table vm)\<rparr>))
               else Some (Inl (RuntimeError (exec_pos vm) ''Type ERROR: Type mismatch''))))
       \<and> (\<forall>test_ent. map_of (var_table vm) name = None \<and> conv_arg rt name = Inr test_ent \<longrightarrow>
            Assign_var rt vm name v =
              (if E_type test_ent = T_UNDET
               then Some (Inr (vm\<lparr>var_table := AList.update name source (var_table vm)\<rparr>))
               else Some (Inl (RuntimeError (exec_pos vm)
                                 (''Type ERROR: Invalid symbol name '' @ name)))))
       \<and> ((\<exists>vm'. Assign_var rt vm name v = Some (Inr vm')) \<longleftrightarrow>
            (case map_of (var_table vm) name of
               Some registered \<Rightarrow> E_type source = E_type registered
             | None \<Rightarrow> (\<exists>test_ent. conv_arg rt name = Inr test_ent \<and> E_type test_ent = T_UNDET)))"
  using assms
  by (auto simp: Assign_var_def ret_def abort_def Runtime_error_def
      split: option.splits sum.splits)

lemma Assign_var_examples:
  "Assign_var example_runtime (vm_zero\<lparr>var_table := [(''x'', \<lparr>Data = put_uint64 42, E_type = T_INT\<rparr>)]\<rparr>)
     ''x'' (VStr ''hi'') = Some (Inl (RuntimeError 0 ''Type ERROR: Type mismatch''))
   \<and> Assign_var example_runtime (vm_zero\<lparr>var_table := [(''x'', \<lparr>Data = put_uint64 42, E_type = T_INT\<rparr>)]\<rparr>)
     ''x'' (VInt 7) = Some (Inr (vm_zero\<lparr>var_table := [(''x'', \<lparr>Data = put_uint64 7, E_type = T_INT\<rparr>)]\<rparr>))
   \<and> Assign_var example_runtime vm_zero ''42'' (VInt 7) =
       Some (Inl (RuntimeError 0 ''Type ERROR: Invalid symbol name 42''))
   \<and> Assign_var example_runtime vm_zero ''y'' (VInt 7) =
       Some (Inr (vm_zero\<lparr>var_table := [(''y'', \<lparr>Data = put_uint64 7, E_type = T_INT\<rparr>)]\<rparr>))"
proof -
  let ?vm = "vm_zero\<lparr>var_table := [(''x'', \<lparr>Data = put_uint64 42, E_type = T_INT\<rparr>)]\<rparr>"
  have s: "itoentity ?vm (VStr ''hi'') = Inr \<lparr>Data = ''hi'', E_type = T_STR\<rparr>"
    and i: "itoentity ?vm (VInt 7) = Inr \<lparr>Data = put_uint64 7, E_type = T_INT\<rparr>"
    and j: "itoentity vm_zero (VInt 7) = Inr \<lparr>Data = put_uint64 7, E_type = T_INT\<rparr>"
    by (simp_all add: itoentity_def)
  have 1: "Assign_var example_runtime ?vm ''x'' (VStr ''hi'') =
      Some (Inl (RuntimeError 0 ''Type ERROR: Type mismatch''))"
    using Assign_var_cases [OF s, of "''x''" example_runtime]
    by (simp add: vm_zero_def kind_distinct)
  have 2: "Assign_var example_runtime ?vm ''x'' (VInt 7) =
      Some (Inr (vm_zero\<lparr>var_table := [(''x'', \<lparr>Data = put_uint64 7, E_type = T_INT\<rparr>)]\<rparr>))"
    using Assign_var_cases [OF i, of "''x''" example_runtime]
    by (simp add: vm_zero_def)
  have 3: "Assign_var example_runtime vm_zero ''42'' (VInt 7) =
       Some (Inl (RuntimeError 0 ''Type ERROR: Invalid symbol name 42''))"
    using Assign_var_cases [OF j, of "''42''" example_runtime] conv_arg_42 [of example_runtime]
    by (simp add: vm_zero_def kind_distinct)
  have 4: "Assign_var example_runtime vm_zero ''y'' (VInt 7) =
       Some (Inr (vm_zero\<lparr>var_table := [(''y'', \<lparr>Data = put_uint64 7, E_type = T_INT\<rparr>)]\<rparr>))"
    using Assign_var_cases [OF j, of "''y''" example_runtime] conv_arg_example_y
    by (simp add: vm_zero_def)
  from 1 2 3 4 show ?thesis by simp
qed

text \<open>
  Claim C7 says that \<^verbatim>\<open>Assign_var\<close> on a bound name succeeds only on equal kinds and
  otherwise fails with "Type mismatch", and on an unbound name succeeds only when the name
  classifies as \<open>T_UNDET\<close> and otherwise fails with "Invalid symbol name".  For the unbound
  names that consist of one quote character, \<^verbatim>\<open>"\<close> or \<^verbatim>\<open>'\<close>, the classifier takes the
  string branch and slices \<^verbatim>\<open>b_arg_str[1:0]\<close>: \<^verbatim>\<open>Assign_var\<close> on a fresh VM ends in a Go
  run-time panic, for every runtime and every \<^verbatim>\<open>int64\<close> value, and not in "Invalid symbol
  name".
\<close>

theorem C7_quote_name_panics:
  "Assign_var rt vm_zero [CHR 0x22] (VInt i) =
     Some (Inl (GoPanic ''runtime error: slice bounds out of range [1:0]''))
   \<and> Assign_var rt vm_zero [CHR 0x27] (VInt i) =
       Some (Inl (GoPanic ''runtime error: slice bounds out of range [1:0]''))"
  by (simp add: Assign_var_def itoentity_def vm_zero_def conv_arg_def abort_def)


subsection \<open>Evaluation\<close>

lemma Get_argument_INT:
  "Get_argument vm \<lparr>Data = put_uint64 i, E_type = T_INT\<rparr> m =
     Some (if T_INT AND m = 0 then Inl (Runtime_error vm ''Type ERROR: Type mismatch'')
           else Inr (VInt i, T_INT))"
  by (simp add: Get_argument_literal decode_INT kind_distinct)

lemma Get_argument_FLOAT:
  "Get_argument vm \<lparr>Data = put_uint64 f, E_type = T_FLOAT\<rparr> m =
     Some (if T_FLOAT AND m = 0 then Inl (Runtime_error vm ''Type ERROR: Type mismatch'')
           else Inr (VFloat f, T_FLOAT))"
  by (simp add: Get_argument_literal decode_FLOAT kind_distinct)

lemma Get_argument_BOOL:
  "Get_argument vm \<lparr>Data = put_bool b, E_type = T_BOOL\<rparr> m =
     Some (if T_BOOL AND m = 0 then Inl (Runtime_error vm ''Type ERROR: Type mismatch'')
           else Inr (VBool b, T_BOOL))"
  by (simp add: Get_argument_literal decode_BOOL kind_distinct)

lemma Get_argument_STR:
  "E_type a = T_STR \<Longrightarrow> Get_argument vm a m =
     Some (if T_STR AND m = 0 then Inl (Runtime_error vm ''Type ERROR: Type mismatch'')
           else Inr (VStr (Data a), T_STR))"
  by (simp add: Get_argument_literal decode_STR kind_distinct)

lemma Run_loop_halt:
  "\<not> exec_pos vm \<le> int (length (inst_list code)) - 1 \<Longrightarrow>
   Run_loop Inst_table code vm = Some (Inr vm)"
  by (subst Run_loop.simps) simp

lemma Run_loop_step:
  "exec_pos vm \<le> int (length (inst_list code)) - 1 \<Longrightarrow>
   Run_loop Inst_table code vm =
     (case Run_step Inst_table code vm of
        None \<Rightarrow> None
      | Some (Inl e) \<Rightarrow> Some (Inl e)
      | Some (Inr vm') \<Rightarrow> Run_loop Inst_table code vm')"
  by (subst Run_loop.simps) simp

lemmas run_defs = run_script_def Run_def Run_step_def Run_loop_step Run_loop_halt and_then_simps
  arg_at_def Get_baresymbol_def Assign_var_def itoentity_def ret_def abort_def
  Runtime_error_def Runtime_warning_def as_int64_def as_float64_def as_bool_def as_string_def
  Get_argument_INT Get_argument_FLOAT Get_argument_BOOL Get_argument_STR Get_argument_symbol
  kind_distinct kind_mask

lemmas parse_defs = Gen_bytecode_def parse_script_def parse_oneline_def parse_args_def
  parse_args_init_def parse_args_step_def range_runes_def rune_defs byte_of_rune_def
  conv_arg_def ParseInt_def is_digit_def chk_nargs_def set_labels_def is_left_space_def
  start_Inst_table_def Init_Inst_table_def Init_def vm_zero_def example_runtime_def
  compile_error_def

subsection \<open>Arithmetic\<close>

text \<open>
  The zero test of \<^verbatim>\<open>arb_calc\<close> and the conversions around it: a zero divisor is fatal for
  the three dividing operators, a nonzero INT divisor converts to a float of magnitude at
  least one and never raises, and a FLOAT divisor raises for \<^verbatim>\<open>%\<close> exactly when it is a
  nonzero fraction.
\<close>

declare bit_length.simps [simp del]

lemma bit_length_upper: "n < 2 ^ bit_length n"
proof (induction n rule: bit_length.induct)
  case (1 n)
  show ?case
  proof (cases "n = 0")
    case True
    then show ?thesis by (simp add: bit_length.simps [of n])
  next
    case False
    with 1 have "n div 2 < 2 ^ bit_length (n div 2)" by simp
    then have "n < 2 * 2 ^ bit_length (n div 2)" by simp
    with False show ?thesis by (simp add: bit_length.simps [of n])
  qed
qed

lemma bit_length_lower: "0 < n \<Longrightarrow> 2 ^ (bit_length n - 1) \<le> n"
proof (induction n rule: bit_length.induct)
  case (1 n)
  then have n: "n \<noteq> 0" by simp
  show ?case
  proof (cases "n div 2 = 0")
    case True
    with n show ?thesis
      by (simp add: bit_length.simps [of n] bit_length.simps [of 0])
  next
    case False
    with 1 n have ih: "2 ^ (bit_length (n div 2) - 1) \<le> n div 2" by simp
    from False have "bit_length (n div 2) \<noteq> 0"
      by (simp add: bit_length.simps [of "n div 2"])
    then have "2 ^ bit_length (n div 2) = (2::nat) * 2 ^ (bit_length (n div 2) - 1)"
      by (cases "bit_length (n div 2)") simp_all
    with ih have "2 ^ bit_length (n div 2) \<le> n" by simp
    with n show ?thesis by (simp add: bit_length.simps [of n])
  qed
qed

lemma bit_length_le: "n < 2 ^ k \<Longrightarrow> bit_length n \<le> k"
proof (rule ccontr)
  assume lt: "n < 2 ^ k" and "\<not> bit_length n \<le> k"
  then have k: "k \<le> bit_length n - 1" and pos: "0 < n"
    by (auto simp: bit_length.simps [of n] split: if_splits)
  from bit_length_lower [OF pos] have "2 ^ (bit_length n - 1) \<le> n" .
  moreover have "(2::nat) ^ k \<le> 2 ^ (bit_length n - 1)"
    using k by (intro power_increasing) simp_all
  ultimately have "2 ^ k \<le> n" by (rule order_trans [rotated])
  with lt show False by simp
qed

lemma f64_exp_pack:
  assumes "e < 2048" and "frac < 2 ^ 52"
  shows "f64_exp (f64_pack neg e frac) = e"
proof -
  let ?s = "if neg then 2 ^ 63 else (0::nat)"
  have lt: "?s + e * 2 ^ 52 + frac < 2 ^ 64"
    using assms by auto
  have "unat (f64_pack neg e frac) = ?s + e * 2 ^ 52 + frac"
    unfolding f64_pack_def by (rule of_nat_inverse [OF refl]) (use lt in simp)
  moreover have "(?s + e * 2 ^ 52 + frac) div 2 ^ 52 = (if neg then 2048 else 0) + e"
    using assms(2) by auto
  ultimately show ?thesis
    using assms(1) by (simp add: f64_exp_def)
qed


lemma float64_of_int64_exp:
  assumes "i \<noteq> 0"
  shows "1023 \<le> f64_exp (float64_of_int64 i)"
proof -
  let ?n = "nat \<bar>sint i\<bar>"
  let ?len = "bit_length ?n"
  have "sint i \<noteq> 0"
    using assms by (simp add: signed_eq_0_iff)
  then have n: "0 < ?n" by simp
  have "\<bar>sint i\<bar> \<le> 2 ^ 63"
    using sint_ge [of i] sint_lt [of i] by (simp add: abs_le_iff)
  then have "?n < 2 ^ 64" by (simp add: nat_less_iff)
  then have len64: "?len \<le> 64" by (rule bit_length_le)
  have len1: "1 \<le> ?len"
    using n by (simp add: bit_length.simps [of ?n])
  have up: "?n < 2 ^ ?len" by (rule bit_length_upper)
  have lo: "2 ^ (?len - 1) \<le> ?n" by (rule bit_length_lower [OF n])
  show ?thesis
  proof (cases "?len \<le> 53")
    case True
    have "?n * 2 ^ (53 - ?len) < 2 ^ ?len * 2 ^ (53 - ?len)"
      using up by simp
    also have "\<dots> = (2::nat) ^ 53"
      using True by (simp add: power_add [symmetric])
    finally have "?n * 2 ^ (53 - ?len) < 2 ^ 53" .
    then have "?n * 2 ^ (53 - ?len) - 2 ^ 52 < 2 ^ 52" by simp arith
    then have "f64_exp (f64_pack (sint i < 0) (?len + 1022) (?n * 2 ^ (53 - ?len) - 2 ^ 52)) = ?len + 1022"
      using True by (intro f64_exp_pack) simp_all
    then show ?thesis
      using True n len1 by (simp add: float64_of_int64_def Let_def)
  next
    case False
    let ?sh = "?len - 53"
    let ?q = "?n div 2 ^ ?sh"
    have "53 + ?sh = ?len"
      using False by simp
    then have "(2::nat) ^ 53 * 2 ^ ?sh = 2 ^ ?len"
      by (simp only: power_add [symmetric])
    with up have "?n < 2 ^ 53 * 2 ^ ?sh"
      by (simp only:)
    then have q: "?q < 2 ^ 53"
      by (simp add: less_mult_imp_div_less mult.commute)
    define m where "m = (if 2 ^ (?sh - 1) < ?n mod 2 ^ ?sh
                              \<or> (?n mod 2 ^ ?sh = 2 ^ (?sh - 1) \<and> odd ?q) then ?q + 1 else ?q)"
    have m: "m \<le> 2 ^ 53"
      using q by (simp add: m_def)
    have e0: "f64_exp (f64_pack (sint i < 0) (?len + 1023) 0) = ?len + 1023"
      using len64 by (intro f64_exp_pack) simp_all
    have e1: "f64_exp (f64_pack (sint i < 0) (?len + 1022) (m - 2 ^ 52)) = ?len + 1022"
      if "m \<noteq> 2 ^ 53"
      using len64 that m by (intro f64_exp_pack) simp_all
    have n0: "?n \<noteq> 0"
      using n by simp
    have "float64_of_int64 i =
        (if m = 2 ^ 53 then f64_pack (sint i < 0) (?len + 1023) 0
         else f64_pack (sint i < 0) (?len + 1022) (m - 2 ^ 52))"
      unfolding float64_of_int64_def Let_def m_def
      by (simp only: n0 False if_False)
    then show ?thesis
      using e0 e1 len1 by (cases "m = 2 ^ 53") (simp_all only: if_True if_False, simp_all)
  qed
qed

lemma exp_ge_1023_nonzero:
  assumes "1023 \<le> f64_exp x"
  shows "\<not> f64_is_zero x" and "int64_of_float64 x \<noteq> 0"
proof -
  have "unat x div 2 ^ 52 \<noteq> 0"
    using assms by (auto simp: f64_exp_def)
  then have big: "2 ^ 52 \<le> unat x" by (simp add: div_eq_0_iff)
  show "\<not> f64_is_zero x"
  proof
    assume "f64_is_zero x"
    then have z: "unat x mod 2 ^ 63 = 0" by (simp add: f64_is_zero_def)
    have "(unat x div 2 ^ 52) mod 2048 = (unat x mod 2 ^ 63) div 2 ^ 52"
      using div_exp_mod_exp_eq [of "unat x" 52 11] by simp
    with z assms show False by (simp add: f64_exp_def)
  qed
  show "int64_of_float64 x \<noteq> 0"
  proof (cases "1086 \<le> f64_exp x")
    case True
    then show ?thesis
      using assms by (simp add: int64_of_float64_def MinInt64_def)
  next
    case False
    let ?e = "f64_exp x"
    let ?m = "2 ^ 52 + f64_frac x"
    let ?mag = "if 1075 \<le> ?e then ?m * 2 ^ (?e - 1075) else ?m div 2 ^ (1075 - ?e)"
    have frac: "f64_frac x < 2 ^ 52" by (simp add: f64_frac_def)
    have pos: "0 < ?mag"
    proof (cases "1075 \<le> ?e")
      case True
      then show ?thesis by simp
    next
      case f: False
      have "(2::nat) ^ (1075 - ?e) \<le> 2 ^ 52"
        using assms by (intro power_increasing) simp_all
      then have "2 ^ (1075 - ?e) \<le> ?m" by simp
      then have "0 < ?m div 2 ^ (1075 - ?e)"
        by (simp add: div_greater_zero_iff)
      with f show ?thesis by simp
    qed
    have "?mag < 2 ^ 63"
    proof (cases "1075 \<le> ?e")
      case True
      have "?m * 2 ^ (?e - 1075) < 2 ^ 53 * 2 ^ (?e - 1075)"
        using frac by simp
      also have "\<dots> \<le> 2 ^ 53 * (2::nat) ^ 10"
        using False by (intro mult_left_mono power_increasing) simp_all
      finally show ?thesis using True by simp
    next
      case f: False
      have "?m div 2 ^ (1075 - ?e) \<le> ?m" by simp
      also have "\<dots> < 2 ^ 63" using frac by simp
      finally show ?thesis using f by simp
    qed
    then have lt64: "?mag < 2 ^ LENGTH(64)" by simp
    have a: "(word_of_nat ?mag :: 64 word) \<noteq> 0"
    proof
      assume "(word_of_nat ?mag :: 64 word) = 0"
      from of_nat_inverse [OF this lt64] pos show False by simp
    qed
    have "(word_of_int (- int ?mag) :: 64 word) = - word_of_nat ?mag"
      by simp
    with a have b: "(word_of_int (- int ?mag) :: 64 word) \<noteq> 0"
      by (simp only: neg_equal_0_iff_equal) simp
    have "\<not> f64_exp x < 1023"
      using assms by simp
    with False have "int64_of_float64 x =
        (if f64_neg x then word_of_int (- int ?mag) else word_of_nat ?mag)"
      unfolding int64_of_float64_def Let_def by (simp only: if_False)
    with a b show ?thesis
      by (simp only: simp_thms split: if_splits)
  qed
qed


lemma nonzero_INT_divisor_completes:
  assumes "b \<noteq> 0" and "operator = ''//'' \<or> operator = ''/'' \<or> operator = ''%''"
  shows "\<exists>r. arb_calc_switch rt vm operator (float64_of_int64 a) (float64_of_int64 b) = Some (Inr r)"
  using assms(2) exp_ge_1023_nonzero [OF float64_of_int64_exp [OF assms(1)]]
  by (auto simp: arb_calc_switch_def ret_def)

lemma zero_divisor_is_fatal:
  assumes "operator = ''//'' \<or> operator = ''/'' \<or> operator = ''%''" and "f64_is_zero ope_b_s"
  shows "arb_calc_switch rt vm operator ope_a_s ope_b_s =
           Some (Inl (RuntimeError (exec_pos vm) ''Math ERROR: Division by zero''))"
  using assms by (auto simp: arb_calc_switch_def abort_def Runtime_error_def)

lemma float64_of_int64_0: "f64_is_zero (float64_of_int64 0)"
  by (simp add: float64_of_int64_def f64_is_zero_def)

lemma fraction_divisor_panics:
  assumes "\<not> f64_is_zero ope_b_s" and "f64_exp ope_b_s < 1023"
  shows "arb_calc_switch rt vm ''%'' ope_a_s ope_b_s =
           Some (Inl (GoPanic ''runtime error: integer divide by zero''))"
  using assms by (simp add: arb_calc_switch_def abort_def int64_of_float64_def)

lemma nonzero_FLOAT_divisor_completes:
  assumes "\<not> f64_is_zero ope_b_s"
    and "operator = ''//'' \<or> operator = ''/'' \<or> (operator = ''%'' \<and> 1023 \<le> f64_exp ope_b_s)"
  shows "\<exists>r. arb_calc_switch rt vm operator ope_a_s ope_b_s = Some (Inr r)"
  using assms exp_ge_1023_nonzero(2) [of ope_b_s]
  by (auto simp: arb_calc_switch_def ret_def)


lemma half_truncates_to_zero:
  "\<not> f64_is_zero 0x3FE0000000000000 \<and> int64_of_float64 0x3FE0000000000000 = 0"
  by (simp add: f64_is_zero_def int64_of_float64_def f64_exp_def)

text \<open>
  Claim C1 says that \<^verbatim>\<open>div\<close>, \<^verbatim>\<open>div_r\<close> and \<^verbatim>\<open>mod\<close> fail with "Division by zero" when the
  second operand is zero and complete for every other second operand, INT or FLOAT.
  \<^verbatim>\<open>arb_calc\<close> guards \<^verbatim>\<open>%\<close> by the test \<^verbatim>\<open>ope_b_s == 0\<close> on the \<^verbatim>\<open>float64\<close> and then divides
  by \<^verbatim>\<open>int64(ope_b_s)\<close>.  For \<^verbatim>\<open>mod 7.5, 0.5, q\<close> the operand \<open>0.5\<close> passes the test and
  converts to \<open>0\<close>: the instruction ends in the Go run-time panic "integer divide by
  zero", whatever the state, and assigns nothing.
\<close>

theorem C1_mod_fraction_panics:
  "inst_mod rt [\<lparr>Data = put_uint64 0x401E000000000000, E_type = T_FLOAT\<rparr>,
                \<lparr>Data = put_uint64 0x3FE0000000000000, E_type = T_FLOAT\<rparr>,
                \<lparr>Data = ''q'', E_type = T_UNDET\<rparr>] vm =
     Some (Inl (GoPanic ''runtime error: integer divide by zero''))"
  using half_truncates_to_zero
  by (simp add: inst_mod_def arb_calc_def arg_at_def and_then_simps Get_argument_FLOAT kind_mask
      kind_distinct as_float64_def arb_calc_switch_def abort_def)

subsection \<open>Casts\<close>

lemma gen_str_s_true:
  "Gen_bytecode example_runtime (start_Inst_table example_runtime) (Init vm_zero) ''str s, true'' =
     Inr (\<lparr>inst_list = [\<lparr>Inst = ''str'', Args = [\<lparr>Data = ''s'', E_type = T_UNDET\<rparr>,
                                                    \<lparr>Data = put_bool True, E_type = T_BOOL\<rparr>]\<rparr>],
           bc_label_table = Map.empty\<rparr>, vm_zero)"
  by (simp add: parse_defs char_of_eq_iff)

text \<open>
  Claim C3 says that \<^verbatim>\<open>str D, v\<close> with \<open>v\<close> of kind BOOL assigns the literal text of the
  boolean, without a warning.  The program \<^verbatim>\<open>str s, true\<close>, compiled and run on a fresh VM,
  leaves \<open>s\<close> bound to the string "false" (and no warning): the two branches of
  \<^verbatim>\<open>inst_str\<close> are swapped.
\<close>

theorem C3_str_of_true_is_false:
  "run_script example_runtime ''str s, true'' =
     Some (Inr \<lparr>exec_pos = 1, label_table = Map.empty,
                var_table = [(''s'', \<lparr>Data = ''false'', E_type = T_STR\<rparr>)], warnings = []\<rparr>)"
  by (simp add: gen_str_s_true run_defs inst_str_def parse_defs char_of_eq_iff)

text \<open>
  Claim C2 says that \<^verbatim>\<open>str D, i\<close> followed by \<^verbatim>\<open>int D2, D\<close> restores the INT \<open>i\<close>.  The
  program \<^verbatim>\<open>let x, 5\<close>, \<^verbatim>\<open>str d, x\<close>, \<^verbatim>\<open>int e, d\<close> stops at its third instruction with
  "Type mismatch".
\<close>

theorem C2_roundtrip_counterexample:
  "run_script example_runtime (''let x, 5'' @ [CHR 0x0A] @ ''str d, x'' @ [CHR 0x0A] @ ''int e, d'') =
     Some (Inl (RuntimeError 2 ''Type ERROR: Type mismatch''))"
  by (simp add: run_defs inst_let_def inst_str_def inst_int_def parse_defs char_of_eq_iff FormatInt_def format_int_def digit_char_def)

text \<open>
  Claim C2, amended.  When \<open>v\<close> resolves to the INT \<open>i\<close> and \<open>D\<close> is a symbol that is bound to a STR
  or is unbound and a valid name, \<^verbatim>\<open>str D, v\<close> succeeds and binds \<open>D\<close> to the STR holding
  the base-10 text of \<open>i\<close>; a following \<^verbatim>\<open>int D2, D\<close> fails with the fatal "Type mismatch",
  at whatever instruction number it runs, because \<^verbatim>\<open>int\<close> resolves its operand with the
  mask INT or FLOAT.
\<close>

theorem C2_str_then_int_fails:
  assumes "Get_argument vm v (T_ANY XOR T_LABEL) = Some (Inr (VInt i, T_INT))"
    and "E_type d = T_UNDET"
    and "case map_of (var_table vm) (Data d) of
           Some registered \<Rightarrow> E_type registered = T_STR
         | None \<Rightarrow> (\<exists>test_ent. conv_arg rt (Data d) = Inr test_ent \<and> E_type test_ent = T_UNDET)"
  shows "\<exists>vm1. inst_str rt [d, v] vm = Some (Inr vm1)
           \<and> map_of (var_table vm1) (Data d) = Some \<lparr>Data = FormatInt i, E_type = T_STR\<rparr>
           \<and> (\<forall>pc. inst_int rt [d2, d] (vm1\<lparr>exec_pos := pc\<rparr>) =
                  Some (Inl (RuntimeError pc ''Type ERROR: Type mismatch'')))"
proof -
  let ?e = "\<lparr>Data = FormatInt i, E_type = T_STR\<rparr>"
  let ?vm1 = "vm\<lparr>var_table := AList.update (Data d) ?e (var_table vm)\<rparr>"
  have str: "inst_str rt [d, v] vm = Some (Inr ?vm1)"
    using assms
    by (auto simp: inst_str_def arg_at_def and_then_simps as_int64_def Get_baresymbol_def
        Assign_var_def itoentity_def ret_def abort_def kind_distinct split: option.splits)
  have bound: "map_of (var_table ?vm1) (Data d) = Some ?e"
    by (simp add: update_conv')
  have "Get_argument (?vm1\<lparr>exec_pos := pc\<rparr>) d (T_INT OR T_FLOAT) =
          Some (Inl (RuntimeError pc ''Type ERROR: Type mismatch''))" for pc
    using assms(2) bound
    by (simp add: Get_argument_symbol Get_argument_STR kind_mask Runtime_error_def)
  then have "inst_int rt [d2, d] (?vm1\<lparr>exec_pos := pc\<rparr>) =
          Some (Inl (RuntimeError pc ''Type ERROR: Type mismatch''))" for pc
    by (simp add: inst_int_def arg_at_def and_then_simps)
  with str bound show ?thesis by blast
qed

theorem C2_str_then_int_fails_witness:
  "\<exists>vm1. inst_str example_runtime [\<lparr>Data = ''d'', E_type = T_UNDET\<rparr>, \<lparr>Data = ''x'', E_type = T_UNDET\<rparr>]
             (vm_zero\<lparr>var_table := [(''x'', \<lparr>Data = put_uint64 5, E_type = T_INT\<rparr>)]\<rparr>) = Some (Inr vm1)
         \<and> map_of (var_table vm1) ''d'' = Some \<lparr>Data = ''5'', E_type = T_STR\<rparr>
         \<and> inst_int example_runtime [\<lparr>Data = ''e'', E_type = T_UNDET\<rparr>, \<lparr>Data = ''d'', E_type = T_UNDET\<rparr>]
              (vm1\<lparr>exec_pos := 2\<rparr>) = Some (Inl (RuntimeError 2 ''Type ERROR: Type mismatch''))"
proof -
  let ?vm = "vm_zero\<lparr>var_table := [(''x'', \<lparr>Data = put_uint64 5, E_type = T_INT\<rparr>)]\<rparr>"
  let ?d = "\<lparr>Data = ''d'', E_type = T_UNDET\<rparr>"
  let ?x = "\<lparr>Data = ''x'', E_type = T_UNDET\<rparr>"
  have 1: "Get_argument ?vm ?x (T_ANY XOR T_LABEL) = Some (Inr (VInt 5, T_INT))"
    by (simp add: Get_argument_symbol Get_argument_INT kind_mask)
  have 2: "E_type ?d = T_UNDET" by simp
  have 3: "case map_of (var_table ?vm) (Data ?d) of
           Some registered \<Rightarrow> E_type registered = T_STR
         | None \<Rightarrow> (\<exists>test_ent. conv_arg example_runtime (Data ?d) = Inr test_ent
                       \<and> E_type test_ent = T_UNDET)"
    by (simp add: conv_arg_def ParseInt_def is_digit_def example_runtime_def)
  have 4: "FormatInt 5 = ''5''"
    by (simp add: FormatInt_def format_int_def digit_char_def char_of_eq_iff)
  from C2_str_then_int_fails [OF 1 2 3, of "\<lparr>Data = ''e'', E_type = T_UNDET\<rparr>"]
  show ?thesis
    unfolding 4 by (simp only: Entity.simps) blast
qed


subsection \<open>The line tokenizer\<close>

lemma step_plain_outside:
  assumes "\<not> pa_d_quote st" "\<not> pa_s_quote st" "plain_rune c"
  shows "parse_args_step rt vm st c =
           Inr (if pa_after_parentheses st then st else st\<lparr>pa_buf := pa_buf st @ [byte_of_rune c]\<rparr>)"
  using assms by (simp add: parse_args_step_def plain_rune_def)

lemma conv_arg_no_compile_error: "conv_arg rt bs \<noteq> Inl (CompileError n msg)"
  by (simp add: conv_arg_def split: option.splits)

lemma step_expected_dq:
  "parse_args_step rt vm st c = Inl (compile_error vm (''Syntax ERROR: Expected , before '' @ [CHR 0x22]))
     \<longleftrightarrow> \<not> pa_d_quote st \<and> \<not> pa_s_quote st \<and> c = dq_rune \<and> pa_buf st \<noteq> []"
  using conv_arg_no_compile_error [of rt]
  by (auto simp: parse_args_step_def compile_error_def rune_defs split: sum.splits)

lemma step_expected_sq:
  "parse_args_step rt vm st c = Inl (compile_error vm (''Syntax ERROR: Expected , before '' @ [CHR 0x27]))
     \<longleftrightarrow> \<not> pa_d_quote st \<and> \<not> pa_s_quote st \<and> c = sq_rune \<and> pa_buf st \<noteq> []"
  using conv_arg_no_compile_error [of rt]
  by (auto simp: parse_args_step_def compile_error_def rune_defs split: sum.splits)

lemma step_keeps_plain:
  assumes "parse_args_step rt vm st c = Inr st'"
    and "\<not> pa_d_quote st \<and> \<not> pa_s_quote st \<longrightarrow>
           (\<exists>ps. pa_buf st = map byte_of_rune ps \<and> list_all plain_rune ps)"
    and "\<not> (pa_d_quote st \<and> pa_s_quote st)"
  shows "(\<not> pa_d_quote st' \<and> \<not> pa_s_quote st' \<longrightarrow>
           (\<exists>ps. pa_buf st' = map byte_of_rune ps \<and> list_all plain_rune ps))
         \<and> \<not> (pa_d_quote st' \<and> pa_s_quote st')"
proof (cases "pa_d_quote st \<or> pa_s_quote st")
  case True
  then show ?thesis
    using assms(1,3)
    by (auto simp: parse_args_step_def split: if_splits sum.splits)
next
  case False
  then obtain ps where ps: "pa_buf st = map byte_of_rune ps" "list_all plain_rune ps"
    using assms(2) by blast
  show ?thesis
  proof (cases "plain_rune c")
    case True
    have "pa_buf st @ [byte_of_rune c] = map byte_of_rune (ps @ [c]) \<and> list_all plain_rune (ps @ [c])"
      using ps True by simp
    then have ex: "\<exists>psa. pa_buf st @ [byte_of_rune c] = map byte_of_rune psa \<and> list_all plain_rune psa"
      by blast
    have eq: "st' = (if pa_after_parentheses st then st
                     else st\<lparr>pa_buf := pa_buf st @ [byte_of_rune c]\<rparr>)"
      using assms(1) False True step_plain_outside [of st c rt vm] by simp
    show ?thesis
    proof (cases "pa_after_parentheses st")
      case True
      with eq have "st' = st" by simp
      then show ?thesis using assms(2,3) by simp
    next
      case False
      with eq have "st' = st\<lparr>pa_buf := pa_buf st @ [byte_of_rune c]\<rparr>" by simp
      then show ?thesis using ex assms(3) by simp
    qed
  next
    case c: False
    show ?thesis
      using assms(1) False c ps
      by (auto simp: parse_args_step_def plain_rune_def split: if_splits sum.splits)
  qed
qed

lemma loop_keeps_plain:
  assumes "parse_args_loop rt vm st cs = Inr st'"
    and "\<not> pa_d_quote st \<and> \<not> pa_s_quote st \<longrightarrow>
           (\<exists>ps. pa_buf st = map byte_of_rune ps \<and> list_all plain_rune ps)"
    and "\<not> (pa_d_quote st \<and> pa_s_quote st)"
  shows "(\<not> pa_d_quote st' \<and> \<not> pa_s_quote st' \<longrightarrow>
           (\<exists>ps. pa_buf st' = map byte_of_rune ps \<and> list_all plain_rune ps))
         \<and> \<not> (pa_d_quote st' \<and> pa_s_quote st')"
  using assms
proof (induction cs arbitrary: st)
  case Nil
  then show ?case by simp
next
  case (Cons c cs)
  from Cons.prems(1) obtain st1 where s1: "parse_args_step rt vm st c = Inr st1"
    and l1: "parse_args_loop rt vm st1 cs = Inr st'"
    by (auto split: sum.splits)
  from step_keeps_plain [OF s1 Cons.prems(2,3)] Cons.IH [OF l1] show ?case
    by blast
qed


lemma quote_after_close:
  assumes "(pa_d_quote st \<and> c = dq_rune) \<or> (pa_s_quote st \<and> c = sq_rune)"
    and "\<not> (pa_d_quote st \<and> pa_s_quote st)"
    and "parse_args_step rt vm st c = Inr st1"
    and "q = dq_rune \<or> q = sq_rune"
  shows "\<exists>st2. parse_args_step rt vm st1 q = Inr st2 \<and> pa_buf st2 = [byte_of_rune q]
           \<and> pa_d_quote st2 = (q = dq_rune) \<and> pa_s_quote st2 = (q = sq_rune)
           \<and> pa_args st2 = pa_args st1"
proof -
  have st1: "\<not> pa_d_quote st1 \<and> \<not> pa_s_quote st1 \<and> pa_buf st1 = []"
    using assms(1,2,3)
    by (auto simp: parse_args_step_def split: sum.splits)
  have b: "byte_of_rune dq_rune = CHR 0x22" "byte_of_rune sq_rune = CHR 0x27"
    by (simp_all add: byte_of_rune_def rune_defs char_of_eq_iff)
  show ?thesis
    using st1 assms(4) b
    by (auto simp: parse_args_step_def rune_defs)
qed

lemma two_quoted_tokens:
  "parse_args rt vm [CHR 0x22, CHR ''a'', CHR 0x22, CHR 0x22, CHR ''b'', CHR 0x22] =
     Inr [\<lparr>Data = ''a'', E_type = T_STR\<rparr>, \<lparr>Data = ''b'', E_type = T_STR\<rparr>]"
  by (simp add: parse_args_def parse_args_init_def parse_args_step_def range_runes_def rune_defs
      byte_of_rune_def conv_arg_def char_of_eq_iff)

text \<open>
  Claim C4 says that outside quotes every byte other than a comma, a quote character and a
  space is appended to the token buffer, also right after a quoted token has closed.  After
  the three characters \<^verbatim>\<open>"a"\<close> the tokenizer is outside quotes with an empty buffer and
  \<^verbatim>\<open>after_parentheses\<close> set; the next character \<open>b\<close> leaves that state as it is, and the
  line \<^verbatim>\<open>"a"b\<close> yields the single operand \<open>a\<close>.
\<close>

theorem C4_counterexample:
  "parse_args_loop example_runtime vm_zero parse_args_init (range_runes [CHR 0x22, CHR ''a'', CHR 0x22]) =
     Inr \<lparr>pa_args = [\<lparr>Data = ''a'', E_type = T_STR\<rparr>], pa_buf = [], pa_d_quote = False,
          pa_s_quote = False, pa_after_parentheses = True\<rparr>
   \<and> parse_args_step example_runtime vm_zero
        \<lparr>pa_args = [\<lparr>Data = ''a'', E_type = T_STR\<rparr>], pa_buf = [], pa_d_quote = False,
         pa_s_quote = False, pa_after_parentheses = True\<rparr> (of_char (CHR ''b'')) =
       Inr \<lparr>pa_args = [\<lparr>Data = ''a'', E_type = T_STR\<rparr>], pa_buf = [], pa_d_quote = False,
            pa_s_quote = False, pa_after_parentheses = True\<rparr>
   \<and> parse_args example_runtime vm_zero [CHR 0x22, CHR ''a'', CHR 0x22, CHR ''b''] =
       Inr [\<lparr>Data = ''a'', E_type = T_STR\<rparr>]"
  by (simp add: parse_args_def parse_args_init_def parse_args_step_def range_runes_def rune_defs
      byte_of_rune_def conv_arg_def char_of_eq_iff)

text \<open>
  Claim C4, amended.  Outside any quoted region, for a character that is not a comma, a
  quote character or a space, the tokenizer appends its byte to the token buffer when
  \<^verbatim>\<open>after_parentheses\<close> is clear, and drops it, leaving the state unchanged, when
  \<^verbatim>\<open>after_parentheses\<close> is set, that is from the close of a quoted token to the next comma.
\<close>

theorem C4_plain_byte_outside_quotes:
  assumes "\<not> pa_d_quote st" and "\<not> pa_s_quote st"
    and "c \<noteq> comma_rune" and "c \<noteq> dq_rune" and "c \<noteq> sq_rune" and "c \<noteq> space_rune"
  shows "parse_args_step rt vm st c =
           Inr (if pa_after_parentheses st then st else st\<lparr>pa_buf := pa_buf st @ [byte_of_rune c]\<rparr>)"
  using assms by (simp add: step_plain_outside plain_rune_def)

theorem C4_plain_byte_outside_quotes_witness:
  "parse_args_step example_runtime vm_zero parse_args_init (of_char (CHR ''b'')) =
     Inr (parse_args_init\<lparr>pa_buf := ''b''\<rparr>)
   \<and> parse_args_step example_runtime vm_zero (parse_args_init\<lparr>pa_after_parentheses := True\<rparr>)
        (of_char (CHR ''b'')) = Inr (parse_args_init\<lparr>pa_after_parentheses := True\<rparr>)"
  using C4_plain_byte_outside_quotes [of parse_args_init "of_char (CHR ''b'')" example_runtime vm_zero]
    C4_plain_byte_outside_quotes [of "parse_args_init\<lparr>pa_after_parentheses := True\<rparr>"
      "of_char (CHR ''b'')" example_runtime vm_zero]
  by (simp add: parse_args_init_def rune_defs byte_of_rune_def char_of_eq_iff)

text \<open>
  Claim C10.  In a state the tokenizer reaches, a character raises "Expected , before quote"
  exactly when it is a quote character met outside quotes with a nonempty buffer, and the
  bytes buffered there come from characters that are no quotes (nor commas, nor spaces).
  Closing a quoted token empties the buffer, so a quote character that follows at once opens
  a new quoted token without error; the operand text \<^verbatim>\<open>"a""b"\<close> yields the two STR operands
  \<open>a\<close> and \<open>b\<close>.
\<close>

theorem C10_expected_comma_before_quote:
  assumes "parse_args_loop rt vm parse_args_init pre = Inr st"
  shows "(parse_args_step rt vm st c =
            Inl (compile_error vm (''Syntax ERROR: Expected , before '' @ [CHR 0x22]))
          \<longleftrightarrow> \<not> pa_d_quote st \<and> \<not> pa_s_quote st \<and> c = dq_rune \<and> pa_buf st \<noteq> [])
       \<and> (parse_args_step rt vm st c =
            Inl (compile_error vm (''Syntax ERROR: Expected , before '' @ [CHR 0x27]))
          \<longleftrightarrow> \<not> pa_d_quote st \<and> \<not> pa_s_quote st \<and> c = sq_rune \<and> pa_buf st \<noteq> [])
       \<and> (\<not> pa_d_quote st \<and> \<not> pa_s_quote st \<longrightarrow>
            (\<exists>ps. pa_buf st = map byte_of_rune ps \<and> list_all plain_rune ps))
       \<and> (\<forall>st1 q. ((pa_d_quote st \<and> c = dq_rune) \<or> (pa_s_quote st \<and> c = sq_rune))
              \<and> parse_args_step rt vm st c = Inr st1 \<and> (q = dq_rune \<or> q = sq_rune) \<longrightarrow>
            pa_buf st1 = []
          \<and> (\<exists>st2. parse_args_step rt vm st1 q = Inr st2 \<and> pa_buf st2 = [byte_of_rune q]
                 \<and> pa_d_quote st2 = (q = dq_rune) \<and> pa_s_quote st2 = (q = sq_rune)
                 \<and> pa_args st2 = pa_args st1))
       \<and> parse_args rt vm [CHR 0x22, CHR ''a'', CHR 0x22, CHR 0x22, CHR ''b'', CHR 0x22] =
           Inr [\<lparr>Data = ''a'', E_type = T_STR\<rparr>, \<lparr>Data = ''b'', E_type = T_STR\<rparr>]"
proof -
  have inv: "(\<not> pa_d_quote st \<and> \<not> pa_s_quote st \<longrightarrow>
            (\<exists>ps. pa_buf st = map byte_of_rune ps \<and> list_all plain_rune ps))
          \<and> \<not> (pa_d_quote st \<and> pa_s_quote st)"
    by (rule loop_keeps_plain [OF assms]) (simp_all add: parse_args_init_def)
  have closed: "pa_buf st1 = []"
    if "(pa_d_quote st \<and> c = dq_rune) \<or> (pa_s_quote st \<and> c = sq_rune)"
      "parse_args_step rt vm st c = Inr st1" for st1
    using that inv by (auto simp: parse_args_step_def split: sum.splits)
  show ?thesis
    using step_expected_dq [of rt vm st c] step_expected_sq [of rt vm st c] inv closed
      quote_after_close [of st c rt vm] two_quoted_tokens [of rt vm]
    by blast
qed

theorem C10_expected_comma_before_quote_witness:
  "parse_args_loop example_runtime vm_zero parse_args_init [of_char (CHR ''a'')] =
     Inr (parse_args_init\<lparr>pa_buf := ''a''\<rparr>)
   \<and> parse_args_step example_runtime vm_zero (parse_args_init\<lparr>pa_buf := ''a''\<rparr>) dq_rune =
       Inl (CompileError 1 (''Syntax ERROR: Expected , before '' @ [CHR 0x22]))
   \<and> parse_args example_runtime vm_zero [CHR 0x22, CHR ''a'', CHR 0x22, CHR 0x22, CHR ''b'', CHR 0x22] =
       Inr [\<lparr>Data = ''a'', E_type = T_STR\<rparr>, \<lparr>Data = ''b'', E_type = T_STR\<rparr>]"
proof -
  have h: "parse_args_loop example_runtime vm_zero parse_args_init [of_char (CHR ''a'')] =
     Inr (parse_args_init\<lparr>pa_buf := ''a''\<rparr>)"
    by (simp add: parse_args_init_def parse_args_step_def rune_defs byte_of_rune_def char_of_eq_iff)
  show ?thesis
    using h C10_expected_comma_before_quote [OF h, of dq_rune]
    by (simp add: parse_args_init_def compile_error_def vm_zero_def)
qed


subsection \<open>The label pass\<close>

lemma set_labels_loop_nop:
  assumes "set_labels_loop i rest new_program labels = (new_program', labels')"
    and "i + length rest = length new_program"
    and "\<forall>L k. labels L = Some k \<longrightarrow> 0 \<le> k \<and> nat k < i \<and> Inst (new_program ! nat k) = ''nop''"
  shows "length new_program' = length new_program
       \<and> (\<forall>L k. labels' L = Some k \<longrightarrow>
             0 \<le> k \<and> nat k < length new_program' \<and> Inst (new_program' ! nat k) = ''nop'')"
  using assms
proof (induction rest arbitrary: i new_program labels)
  case Nil
  then show ?case by auto
next
  case (Cons instr rest)
  show ?case
  proof (cases "IndexRune (Inst instr) (CHR ''@'') = 0")
    case True
    let ?np = "new_program[i := (new_program ! i)\<lparr>Inst := ''nop''\<rparr>]"
    let ?lt = "labels(Inst instr \<mapsto> int i)"
    have run: "set_labels_loop (Suc i) rest ?np ?lt = (new_program', labels')"
      using Cons.prems(1) True by simp
    have len: "Suc i + length rest = length ?np"
      using Cons.prems(2) by simp
    have i: "i < length new_program"
      using Cons.prems(2) by simp
    have inv: "\<forall>L k. ?lt L = Some k \<longrightarrow> 0 \<le> k \<and> nat k < Suc i \<and> Inst (?np ! nat k) = ''nop''"
    proof (intro allI impI)
      fix L k
      assume lk: "?lt L = Some k"
      show "0 \<le> k \<and> nat k < Suc i \<and> Inst (?np ! nat k) = ''nop''"
      proof (cases "L = Inst instr")
        case True
        with lk have "k = int i" by simp
        with i show ?thesis by simp
      next
        case False
        with lk have "labels L = Some k" by simp
        with Cons.prems(3) have "0 \<le> k \<and> nat k < i \<and> Inst (new_program ! nat k) = ''nop''"
          by blast
        then show ?thesis by simp
      qed
    qed
    from Cons.IH [OF run len inv] show ?thesis by auto
  next
    case False
    have run: "set_labels_loop (Suc i) rest new_program labels = (new_program', labels')"
      using Cons.prems(1) False by simp
    have len: "Suc i + length rest = length new_program"
      using Cons.prems(2) by simp
    have inv: "\<forall>L k. labels L = Some k \<longrightarrow>
                 0 \<le> k \<and> nat k < Suc i \<and> Inst (new_program ! nat k) = ''nop''"
      using Cons.prems(3) by (meson less_Suc_eq)
    from Cons.IH [OF run len inv] show ?thesis .
  qed
qed

lemma set_labels_nop:
  assumes "set_labels program = (new_program, labels)" and "labels L = Some k"
  shows "0 \<le> k \<and> nat k < length new_program \<and> Inst (new_program ! nat k) = ''nop''"
proof -
  have "set_labels_loop 0 program program Map.empty = (new_program, labels)"
    using assms(1) by (simp add: set_labels_def)
  from set_labels_loop_nop [OF this] assms(2) show ?thesis
    by auto
qed

text \<open>
  Claim C5.  For every program \<open>P\<close> that \<^verbatim>\<open>Gen_bytecode\<close> returns and every label name in the
  label table of \<open>P\<close>, the index the name maps to lies within the instruction list, and the
  instruction there has the mnemonic \<^verbatim>\<open>nop\<close>.
\<close>

theorem C5_labels_index_nop:
  assumes "Gen_bytecode rt Inst_table vm script = Inr (P, vm')"
    and "bc_label_table P L = Some k"
  shows "0 \<le> k \<and> nat k < length (inst_list P) \<and> Inst (inst_list P ! nat k) = ''nop''"
proof -
  from assms(1) obtain program where
    "set_labels program = (inst_list P, bc_label_table P)"
    by (auto simp: Gen_bytecode_def parse_script_def split: sum.splits prod.splits)
  from set_labels_nop [OF this assms(2)] show ?thesis .
qed

theorem C5_labels_index_nop_witness:
  "Gen_bytecode example_runtime (start_Inst_table example_runtime) vm_zero
     (''dump'' @ [CHR 0x0A] @ ''@a'' @ [CHR 0x0A] @ ''goto @a'') =
     Inr (\<lparr>inst_list = [\<lparr>Inst = ''dump'', Args = []\<rparr>, \<lparr>Inst = ''nop'', Args = []\<rparr>,
                        \<lparr>Inst = ''goto'', Args = [\<lparr>Data = ''@a'', E_type = T_LABEL\<rparr>]\<rparr>],
           bc_label_table = [''@a'' \<mapsto> 1]\<rparr>, vm_zero\<lparr>exec_pos := 2\<rparr>)
   \<and> Inst ([\<lparr>Inst = ''dump'', Args = []\<rparr>, \<lparr>Inst = ''nop'', Args = []\<rparr>,
             \<lparr>Inst = ''goto'', Args = [\<lparr>Data = ''@a'', E_type = T_LABEL\<rparr>]\<rparr>] ! nat 1) = ''nop''"
proof -
  let ?P = "\<lparr>inst_list = [\<lparr>Inst = ''dump'', Args = []\<rparr>, \<lparr>Inst = ''nop'', Args = []\<rparr>,
                        \<lparr>Inst = ''goto'', Args = [\<lparr>Data = ''@a'', E_type = T_LABEL\<rparr>]\<rparr>],
           bc_label_table = [''@a'' \<mapsto> 1]\<rparr>"
  have g: "Gen_bytecode example_runtime (start_Inst_table example_runtime) vm_zero
     (''dump'' @ [CHR 0x0A] @ ''@a'' @ [CHR 0x0A] @ ''goto @a'') = Inr (?P, vm_zero\<lparr>exec_pos := 2\<rparr>)"
    by (simp add: parse_defs char_of_eq_iff)
  have l: "bc_label_table ?P ''@a'' = Some 1"
    by simp
  from g C5_labels_index_nop [OF g l] show ?thesis
    by simp
qed


subsection \<open>What a run retains\<close>

































end
